theory Spec2Isabelle
  imports Complex_Main "HOL-Library.Multiset"
begin

section \<open>Numbers and strings of the host language\<close>

text \<open>
  A JavaScript \<open>number\<close> is modelled by the exact rational it denotes: sums, quotients and
  comparisons are exact, the rounding of IEEE doubles is not part of the model. Integral
  quantities that the code only counts with (block heights, lengths, ids) are \<open>int\<close> or
  \<open>nat\<close>. Hexadecimal quantity strings of the JSON-RPC interface are modelled by the
  numbers they denote.
\<close>

text \<open>\<open>Math.round\<close>: the nearest integer, a tie going towards \<open>+\<infinity>\<close>.\<close>

definition math_round :: "rat \<Rightarrow> int" where
  "math_round x = \<lfloor>x + 1 / 2\<rfloor>"

text \<open>\<open>Number.prototype.toString\<close> on a non-negative integer: its decimal digits.\<close>

definition digit_char :: "nat \<Rightarrow> char" where
  "digit_char d = ''0123456789'' ! d"

function toString :: "nat \<Rightarrow> string" where
  "toString n = (if n < 10 then [digit_char n] else toString (n div 10) @ [digit_char (n mod 10)])"
  by pat_completeness auto
termination
  by (relation "measure id") auto

declare toString.simps [simp del]

text \<open>
  \<open>x.toFixed(d)\<close>: the integer \<open>n\<close> for which \<open>n / 10^d\<close> is nearest to \<open>|x|\<close> (the larger
  one at a tie), printed with \<open>d\<close> fraction digits and the sign of \<open>x\<close>.
\<close>

definition toFixed_int :: "nat \<Rightarrow> rat \<Rightarrow> nat" where
  "toFixed_int d x = nat \<lfloor>\<bar>x\<bar> * 10 ^ d + 1 / 2\<rfloor>"

definition pad_left :: "nat \<Rightarrow> string \<Rightarrow> string" where
  "pad_left d s = replicate (d - length s) (CHR ''0'') @ s"

definition toFixed :: "nat \<Rightarrow> rat \<Rightarrow> string" where
  "toFixed d x =
     (let n = toFixed_int d x;
          body = (if d = 0 then toString n
                  else toString (n div 10 ^ d) @ ''.'' @ pad_left d (toString (n mod 10 ^ d)))
      in if x < 0 then ''-'' @ body else body)"

text \<open>\<open>parseFloat(x.toFixed(d))\<close>: the number that the printed digits denote.\<close>

definition parseFloat_toFixed :: "nat \<Rightarrow> rat \<Rightarrow> rat" where
  "parseFloat_toFixed d x =
     (let v = of_nat (toFixed_int d x) / 10 ^ d in if x < 0 then - v else v)"

text \<open>\<open>String.prototype.toLowerCase\<close> on the ASCII strings that addresses are.\<close>

definition lower_char :: "char \<Rightarrow> char" where
  "lower_char c =
     (case map_of (zip ''ABCDEFGHIJKLMNOPQRSTUVWXYZ'' ''abcdefghijklmnopqrstuvwxyz'') c of
        Some l \<Rightarrow> l
      | None \<Rightarrow> c)"

definition toLowerCase :: "string \<Rightarrow> string" where
  "toLowerCase s = map lower_char s"

section \<open>Shared types (types.ts)\<close>

datatype Direction = In | Out

datatype RiskLevel = Low | Medium | High | Critical

record TransactionActivity =
  hash :: string
  timestamp :: rat
  from_addr :: string
  to_addr :: string
  amount :: rat
  asset :: string
  direction :: Direction

section \<open>Risk scoring (services/risk.ts)\<close>

record SubScore =
  score :: rat
  reason :: "string option"

record RiskAnalysis =
  riskScore :: rat
  riskLevel :: RiskLevel
  reasons :: "string list"

definition no_score :: SubScore where
  "no_score = \<lparr>score = 0, reason = None\<rparr>"

text \<open>The loop of \<open>analyzeVelocity\<close> that adds up the gaps between neighbours.\<close>

fun totalGap :: "rat list \<Rightarrow> rat" where
  "totalGap (a # b # ts) = (b - a) + totalGap (b # ts)"
| "totalGap ts = 0"

definition analyzeVelocity :: "TransactionActivity list \<Rightarrow> SubScore" where
  "analyzeVelocity activity =
     (if length activity < 2 then no_score
      else
        let timestamps = sort (map timestamp activity);
            avgGapSeconds = totalGap timestamps / of_nat (length timestamps - 1);
            avgGapMinutes = avgGapSeconds / 60
        in if avgGapMinutes < 5 \<and> length activity \<ge> 10 then
             \<lparr>score = 25,
              reason = Some ''Very high transaction velocity (potential bot activity)''\<rparr>
           else if avgGapMinutes < 30 \<and> length activity \<ge> 5 then
             \<lparr>score = 15, reason = Some ''High transaction frequency detected''\<rparr>
           else no_score)"

definition analyzeSpikes :: "TransactionActivity list \<Rightarrow> SubScore" where
  "analyzeSpikes activity =
     (if length activity < 3 then no_score
      else
        let amounts = map amount activity;
            avgAmount = sum_list amounts / of_nat (length amounts);
            maxAmount = Max (set amounts)
        in if maxAmount > avgAmount * 10 \<and> maxAmount > 1 then
             \<lparr>score = 20,
              reason = Some (''Large transaction spike detected ('' @ toFixed 4 maxAmount
                             @ '' vs avg '' @ toFixed 4 avgAmount @ '')'')\<rparr>
           else if maxAmount > avgAmount * 5 \<and> maxAmount > 1 / 2 then
             \<lparr>score = 10, reason = Some ''Unusual transaction size variation''\<rparr>
           else no_score)"

text \<open>
  \<open>analyzeWalletAge\<close> reads the clock: the value of \<open>Date.now()\<close>, in milliseconds, is
  the parameter \<open>dateNow\<close>.
\<close>

definition analyzeWalletAge :: "rat \<Rightarrow> TransactionActivity list \<Rightarrow> SubScore" where
  "analyzeWalletAge dateNow activity =
     (if length activity = 0 then no_score
      else
        let timestamps = sort (map timestamp activity);
            firstTx = hd timestamps;
            now = dateNow / 1000;
            ageSeconds = now - firstTx;
            ageDays = ageSeconds / 86400
        in if ageDays < 7 \<and> length activity \<ge> 10 then
             \<lparr>score = 20,
              reason = Some ''New wallet with high activity (potential throwaway)''\<rparr>
           else if ageDays < 30 \<and> length activity \<ge> 15 then
             \<lparr>score = 10,
              reason = Some ''Recently created wallet with significant activity''\<rparr>
           else no_score)"

definition isRound :: "rat \<Rightarrow> bool" where
  "isRound amt \<longleftrightarrow> amt = of_int \<lfloor>amt\<rfloor> \<or> amt = parseFloat_toFixed 2 amt"

fun roundCount :: "TransactionActivity list \<Rightarrow> nat" where
  "roundCount [] = 0"
| "roundCount (tx # txs) = (if isRound (amount tx) then 1 else 0) + roundCount txs"

definition analyzePatterns :: "TransactionActivity list \<Rightarrow> SubScore" where
  "analyzePatterns activity =
     (if length activity < 5 then no_score
      else
        let roundRatio = (of_nat (roundCount activity) :: rat) / of_nat (length activity)
        in if roundRatio > 7 / 10 then
             \<lparr>score = 15,
              reason = Some ''Many round-number transactions (possible automation)''\<rparr>
           else no_score)"

record FlowTotals =
  totalIn :: rat
  totalOut :: rat
  inCount :: nat
  outCount :: nat

definition flowStep :: "FlowTotals \<Rightarrow> TransactionActivity \<Rightarrow> FlowTotals" where
  "flowStep acc tx =
     (if direction tx = In
      then acc\<lparr>totalIn := totalIn acc + amount tx, inCount := inCount acc + 1\<rparr>
      else acc\<lparr>totalOut := totalOut acc + amount tx, outCount := outCount acc + 1\<rparr>)"

definition flowTotals :: "TransactionActivity list \<Rightarrow> FlowTotals" where
  "flowTotals activity =
     foldl flowStep \<lparr>totalIn = 0, totalOut = 0, inCount = 0, outCount = 0\<rparr> activity"

definition analyzeFlows :: "TransactionActivity list \<Rightarrow> SubScore" where
  "analyzeFlows activity =
     (if length activity < 3 then no_score
      else
        let t = flowTotals activity
        in if totalIn t > 0 \<and> totalOut t > totalIn t * (8 / 10) \<and> outCount t \<ge> 3 then
             \<lparr>score = 20,
              reason = Some ''Rapid outflow pattern detected (possible layering)''\<rparr>
           else if outCount t > 5 \<and> inCount t = 0 then
             \<lparr>score = 15,
              reason = Some ''Only outflows detected (possible funds distribution)''\<rparr>
           else no_score)"

definition getRiskLevel :: "rat \<Rightarrow> RiskLevel" where
  "getRiskLevel s =
     (if s \<ge> 70 then Critical else if s \<ge> 50 then High else if s \<ge> 25 then Medium else Low)"

text \<open>\<open>if (s.reason) reasons.push(s.reason)\<close>: an absent or empty reason is not pushed.\<close>

definition pushReason :: "string list \<Rightarrow> SubScore \<Rightarrow> string list" where
  "pushReason rs s =
     (case reason s of None \<Rightarrow> rs | Some r \<Rightarrow> if r = [] then rs else rs @ [r])"

definition calculateRiskScore :: "rat \<Rightarrow> TransactionActivity list \<Rightarrow> RiskAnalysis" where
  "calculateRiskScore dateNow recentActivity =
     (if length recentActivity = 0 then
        \<lparr>riskScore = 0, riskLevel = Low, reasons = [''No recent activity detected'']\<rparr>
      else
        let velocityScore = analyzeVelocity recentActivity;
            spikeScore = analyzeSpikes recentActivity;
            ageScore = analyzeWalletAge dateNow recentActivity;
            patternScore = analyzePatterns recentActivity;
            flowScore = analyzeFlows recentActivity;
            total = score velocityScore + score spikeScore + score ageScore
                    + score patternScore + score flowScore;
            rs = foldl pushReason [] [velocityScore, spikeScore, ageScore, patternScore, flowScore];
            capped = min 100 (max 0 total)
        in \<lparr>riskScore = of_int (math_round capped),
            riskLevel = getRiskLevel capped,
            reasons = (toString (length recentActivity) @ '' transactions analyzed'') # rs\<rparr>)"

section \<open>JSON-RPC data (types.ts)\<close>

text \<open>
  An RPC call either throws or returns. The upstream node is a parameter of the model:
  one function per request the services send.
\<close>

datatype 'a rpc = RpcError | RpcResult 'a

record EVMTransaction =
  tx_hash :: string
  tx_from :: "string option"
  tx_to :: "string option"
  tx_value :: nat
  tx_blockNumber :: string
  tx_timestamp :: "nat option"

datatype BlockTx = TxHash string | TxObject EVMTransaction

record EVMBlock =
  b_number :: string
  b_timestamp :: "nat option"
  b_transactions :: "BlockTx list option"

record SolanaSignature =
  signature :: string
  slot :: nat
  blockTime :: "rat option"
  err :: bool

record SolanaTransaction =
  accountKeys :: "string list"
  preBalances :: "int list"
  postBalances :: "int list"

record Upstream =
  eth_blockNumber :: "string \<Rightarrow> int rpc"
  eth_getBlockByNumber :: "string \<Rightarrow> int \<Rightarrow> EVMBlock option rpc"
  sol_getSignaturesForAddress :: "string \<Rightarrow> nat \<Rightarrow> SolanaSignature list option rpc"
  sol_getTransaction :: "string \<Rightarrow> SolanaTransaction option rpc"

section \<open>EVM reader (services/evm.ts)\<close>

definition isHexChar :: "char \<Rightarrow> bool" where
  "isHexChar c \<longleftrightarrow> c \<in> set ''0123456789abcdefABCDEF''"

definition evm_isValidAddress :: "string \<Rightarrow> bool" where
  "evm_isValidAddress a \<longleftrightarrow>
     take 2 a = ''0x'' \<and> length (drop 2 a) = 40 \<and> list_all isHexChar (drop 2 a)"

definition normalizeAddress :: "string \<Rightarrow> string" where
  "normalizeAddress a = toLowerCase a"

text \<open>\<open>x ? normalizeAddress(x) : ''\<close> for a field that may be null or empty.\<close>

definition normalizeOrEmpty :: "string option \<Rightarrow> string" where
  "normalizeOrEmpty x = (case x of None \<Rightarrow> [] | Some a \<Rightarrow> if a = [] then [] else normalizeAddress a)"

definition getNativeAsset :: "string \<Rightarrow> string" where
  "getNativeAsset chain =
     (if chain = ''eth'' then ''ETH'' else if chain = ''base'' then ''ETH''
      else if chain = ''avax'' then ''AVAX'' else ''NATIVE'')"

definition weiToEth :: "nat \<Rightarrow> rat" where
  "weiToEth wei =
     (if wei = 0 then 0
      else let eth = of_nat wei / 10 ^ 18
           in of_int (math_round (eth * 10 ^ 8)) / 10 ^ 8)"


text \<open>
  The body of the block loops: what one block height adds to the collected transactions.
  A fetch that throws is caught and logged, a null block or one without transactions is
  skipped, a transaction given by its hash only is skipped.
\<close>

definition stampMatching :: "(EVMTransaction \<Rightarrow> bool) \<Rightarrow> EVMBlock \<Rightarrow> BlockTx \<Rightarrow> EVMTransaction list" where
  "stampMatching matches block tx =
     (case tx of
        TxHash h \<Rightarrow> []
      | TxObject txTyped \<Rightarrow>
          if matches txTyped then [txTyped\<lparr>tx_timestamp := b_timestamp block\<rparr>] else [])"

definition scanBlock :: "Upstream \<Rightarrow> string \<Rightarrow> (EVMTransaction \<Rightarrow> bool) \<Rightarrow> int \<Rightarrow> EVMTransaction list" where
  "scanBlock up chain matches blockNum =
     (case eth_getBlockByNumber up chain blockNum of
        RpcError \<Rightarrow> []
      | RpcResult None \<Rightarrow> []
      | RpcResult (Some block) \<Rightarrow>
          (case b_transactions block of
             None \<Rightarrow> []
           | Some txs \<Rightarrow> concat (map (stampMatching matches block) txs)))"

function scanLoop ::
  "Upstream \<Rightarrow> string \<Rightarrow> (EVMTransaction \<Rightarrow> bool) \<Rightarrow> int \<Rightarrow> int \<Rightarrow> EVMTransaction list
     \<Rightarrow> EVMTransaction list" where
  "scanLoop up chain matches blockNum toBlock acc =
     (if blockNum \<le> toBlock
      then scanLoop up chain matches (blockNum + 1) toBlock (acc @ scanBlock up chain matches blockNum)
      else acc)"
  by pat_completeness auto
termination
  by (relation "measure (\<lambda>(up, chain, matches, blockNum, toBlock, acc). nat (toBlock + 1 - blockNum))")
     auto





text \<open>
  The chain cursor is stored as the decimal string of a block height (\<open>toString\<close> of a
  number) and read back with \<open>parseInt\<close>; the model keeps the height itself.
\<close>

record ScanResult =
  transactions :: "EVMTransaction list"
  newCursor :: int

definition matchesAny :: "string list \<Rightarrow> EVMTransaction \<Rightarrow> bool" where
  "matchesAny normalizedAddresses txTyped \<longleftrightarrow>
     (let fromAddr = normalizeOrEmpty (tx_from txTyped);
          toAddr = normalizeOrEmpty (tx_to txTyped)
      in fromAddr \<in> set normalizedAddresses \<or> toAddr \<in> set normalizedAddresses)"

definition scanNewBlocks :: "Upstream \<Rightarrow> string \<Rightarrow> int \<Rightarrow> string list \<Rightarrow> ScanResult" where
  "scanNewBlocks up chain lastCursor trackedAddresses =
     (case eth_blockNumber up chain of
        RpcError \<Rightarrow> \<lparr>transactions = [], newCursor = lastCursor\<rparr>
      | RpcResult latestBlock \<Rightarrow>
          let fromBlock = lastCursor + 1
          in if fromBlock > latestBlock then \<lparr>transactions = [], newCursor = latestBlock\<rparr>
             else
               let normalizedAddresses = map normalizeAddress trackedAddresses;
                   maxBlocks = 50;
                   actualToBlock = min latestBlock (fromBlock + maxBlocks - 1);
                   allTransactions =
                     scanLoop up chain (matchesAny normalizedAddresses) fromBlock actualToBlock []
               in \<lparr>transactions = allTransactions, newCursor = actualToBlock\<rparr>)"

section \<open>Solana reader (services/solana.ts)\<close>

definition isBase58Char :: "char \<Rightarrow> bool" where
  "isBase58Char c \<longleftrightarrow> c \<in> set ''123456789ABCDEFGHJKLMNPQRSTUVWXYZabcdefghijkmnopqrstuvwxyz''"

definition sol_isValidAddress :: "string \<Rightarrow> bool" where
  "sol_isValidAddress a \<longleftrightarrow> 32 \<le> length a \<and> length a \<le> 44 \<and> list_all isBase58Char a"

definition getSignaturesForAddress :: "Upstream \<Rightarrow> string \<Rightarrow> nat \<Rightarrow> SolanaSignature list" where
  "getSignaturesForAddress up addr limit =
     (case sol_getSignaturesForAddress up addr limit of
        RpcError \<Rightarrow> []
      | RpcResult None \<Rightarrow> []
      | RpcResult (Some sigs) \<Rightarrow> sigs)"

definition getTransaction :: "Upstream \<Rightarrow> string \<Rightarrow> SolanaTransaction option" where
  "getTransaction up sig = (case sol_getTransaction up sig of RpcError \<Rightarrow> None | RpcResult r \<Rightarrow> r)"

definition lamportsToSol :: "int \<Rightarrow> rat" where
  "lamportsToSol lamports = (let sol = of_int lamports / 10 ^ 9 in of_int (math_round (sol * 10 ^ 8)) / 10 ^ 8)"

text \<open>The search loop for the target's index: the first position holding the address.\<close>

fun findTargetIndex :: "string list \<Rightarrow> string \<Rightarrow> nat \<Rightarrow> nat option" where
  "findTargetIndex [] target i = None"
| "findTargetIndex (k # ks) target i = (if k = target then Some i else findTargetIndex ks target (i + 1))"

text \<open>\<open>balances[i] || 0\<close>: a read past the end is \<open>undefined\<close>, which counts as 0.\<close>

definition balanceAt :: "int list \<Rightarrow> nat \<Rightarrow> int" where
  "balanceAt balances i = (if i < length balances then balances ! i else 0)"

definition balanceDelta :: "string \<Rightarrow> SolanaTransaction \<Rightarrow> (rat \<times> Direction) option" where
  "balanceDelta targetAddress tx =
     (case findTargetIndex (accountKeys tx) targetAddress 0 of
        None \<Rightarrow> None
      | Some targetIndex \<Rightarrow>
          let preLamports = balanceAt (preBalances tx) targetIndex;
              postLamports = balanceAt (postBalances tx) targetIndex;
              balanceChange = postLamports - preLamports;
              dir = (if balanceChange \<ge> 0 then In else Out);
              amt = \<bar>lamportsToSol balanceChange\<bar>
          in Some (amt, dir))"

definition parseTransactionAmount :: "Upstream \<Rightarrow> string \<Rightarrow> string \<Rightarrow> (rat \<times> Direction) option" where
  "parseTransactionAmount up targetAddress sig =
     (case getTransaction up sig of None \<Rightarrow> None | Some tx \<Rightarrow> balanceDelta targetAddress tx)"





section \<open>Persistent state\<close>

text \<open>
  The tables the code reads and writes through the database client, with the columns it
  uses. Rows are kept in insertion order. The unique key of an alert event is the triple
  (chain, transaction hash or signature, tracked address id).
\<close>

record User =
  u_id :: nat
  telegramUserId :: string

record TrackedAddress =
  ta_id :: nat
  userId :: nat
  chain :: string
  address :: string
  label :: string
  minAmount :: rat
  isActive :: bool
  lastSeenCursor :: string

record AlertEvent =
  trackedAddressId :: nat
  ev_chain :: string
  txHashOrSig :: string
  ev_timestamp :: rat
  ev_direction :: Direction
  ev_amount :: rat
  ev_asset :: string
  sentToTelegram :: bool

record Db =
  users :: "User list"
  trackedAddresses :: "TrackedAddress list"
  alertEvents :: "AlertEvent list"
  chainCursors :: "string \<rightharpoonup> int"

record Limits =
  maxTrackedPerUser :: nat
  maxTrackedTotal :: nat

text \<open>
  Modelled from the spec: the database schema is not among the sources; a tracked address
  is created active (the spec's ``created on registration'', ``soft-deleted (active flag
  cleared) on removal''), and ids are assigned in increasing order.
\<close>

definition default_isActive :: bool where
  "default_isActive = True"

definition nextId :: "nat list \<Rightarrow> nat" where
  "nextId ids = Suc (foldr max ids 0)"

definition findUser :: "Db \<Rightarrow> string \<Rightarrow> User option" where
  "findUser db tgId = find (\<lambda>u. telegramUserId u = tgId) (users db)"

definition findOrCreateUser :: "Db \<Rightarrow> string \<Rightarrow> User \<times> Db" where
  "findOrCreateUser db tgId =
     (case findUser db tgId of
        Some u \<Rightarrow> (u, db)
      | None \<Rightarrow>
          let u = \<lparr>u_id = nextId (map u_id (users db)), telegramUserId = tgId\<rparr>
          in (u, db\<lparr>users := users db @ [u]\<rparr>))"

definition activeOfUser :: "Db \<Rightarrow> nat \<Rightarrow> TrackedAddress list" where
  "activeOfUser db uid = filter (\<lambda>t. userId t = uid \<and> isActive t) (trackedAddresses db)"

definition totalTracked :: "Db \<Rightarrow> nat" where
  "totalTracked db = length (filter isActive (trackedAddresses db))"

definition createTracked ::
  "Db \<Rightarrow> nat \<Rightarrow> string \<Rightarrow> string \<Rightarrow> string \<Rightarrow> rat \<Rightarrow> string \<Rightarrow> TrackedAddress \<times> Db" where
  "createTracked db uid ch addr lbl minAmt cursor =
     (let t = \<lparr>ta_id = nextId (map ta_id (trackedAddresses db)), userId = uid, chain = ch,
               address = addr, label = lbl, minAmount = minAmt, isActive = default_isActive,
               lastSeenCursor = cursor\<rparr>
      in (t, db\<lparr>trackedAddresses := trackedAddresses db @ [t]\<rparr>))"

text \<open>
  The cursor a new registration starts from: the latest signature of the address on
  Solana, the decimal string of the latest block height on an EVM chain. The latter
  request may throw.
\<close>

definition firstSignatureOr :: "SolanaSignature list \<Rightarrow> string \<Rightarrow> string" where
  "firstSignatureOr sigs d =
     (case sigs of [] \<Rightarrow> d | sig # _ \<Rightarrow> if signature sig = [] then d else signature sig)"

definition initialCursor :: "Upstream \<Rightarrow> string \<Rightarrow> string \<Rightarrow> string rpc" where
  "initialCursor up ch addr =
     (if ch = ''sol'' then RpcResult (firstSignatureOr (getSignaturesForAddress up addr 1) [])
      else case eth_blockNumber up ch of
             RpcError \<Rightarrow> RpcError
           | RpcResult latestBlock \<Rightarrow> RpcResult (toString (nat latestBlock)))"

definition storedAddress :: "string \<Rightarrow> string \<Rightarrow> string" where
  "storedAddress ch addr = (if ch = ''sol'' then addr else normalizeAddress addr)"

definition validChains :: "string list" where
  "validChains = [''eth'', ''base'', ''avax'', ''sol'']"

definition isValidFor :: "string \<Rightarrow> string \<Rightarrow> bool" where
  "isValidFor ch addr = (if ch = ''sol'' then sol_isValidAddress addr else evm_isValidAddress addr)"

section \<open>Registration over HTTP (routes/tracking.ts, POST /tracking/add-new)\<close>

text \<open>
  The request body after JSON decoding. \<open>req_minAmount\<close> is the value of
  \<open>parseFloat(minAmount)\<close>, \<open>None\<close> standing for \<open>NaN\<close>.
\<close>

record AddNewRequest =
  req_telegramUserId :: string
  req_chain :: string
  req_address :: string
  req_label :: string
  req_minAmount :: "rat option"

datatype AddNewResponse =
    MissingFields
  | InvalidChain
  | InvalidAddress
  | NegativeMinAmount
  | UserLimitReached
  | TotalLimitReached
  | AlreadyTracked
  | InternalServerError
  | NowTracking TrackedAddress

definition addNew :: "Limits \<Rightarrow> Upstream \<Rightarrow> Db \<Rightarrow> AddNewRequest \<Rightarrow> AddNewResponse \<times> Db" where
  "addNew limits up db req =
     (let ch = req_chain req; addr = req_address req
      in if req_telegramUserId req = [] \<or> ch = [] \<or> addr = [] \<or> req_label req = []
         then (MissingFields, db)
         else if ch \<notin> set validChains then (InvalidChain, db)
         else if \<not> isValidFor ch addr then (InvalidAddress, db)
         else
           let minAmountValue = (case req_minAmount req of None \<Rightarrow> 0 | Some m \<Rightarrow> m)
           in if minAmountValue < 0 then (NegativeMinAmount, db)
              else
                let (user, db1) = findOrCreateUser db (req_telegramUserId req)
                in if length (activeOfUser db1 (u_id user)) \<ge> maxTrackedPerUser limits
                   then (UserLimitReached, db1)
                   else if totalTracked db1 \<ge> maxTrackedTotal limits
                   then (TotalLimitReached, db1)
                   else if find (\<lambda>t. userId t = u_id user \<and> chain t = ch
                                      \<and> address t = storedAddress ch addr \<and> isActive t)
                             (trackedAddresses db1) \<noteq> None
                   then (AlreadyTracked, db1)
                   else
                     (case initialCursor up ch addr of
                        RpcError \<Rightarrow> (InternalServerError, db1)
                      | RpcResult cursor \<Rightarrow>
                          let (tracked, db2) =
                                createTracked db1 (u_id user) ch (storedAddress ch addr)
                                  (req_label req) minAmountValue cursor
                          in (NowTracking tracked, db2)))"

section \<open>Registration in the chat (routes/telegram.ts, handleInteractiveFlow)\<close>

text \<open>
  The last step of the add-new conversation: chain, address and label were collected and
  validated by the earlier steps and are held in the user's state; the message text is the
  minimum amount, given here as the value of \<open>parseFloat(text)\<close>.
\<close>

record AddNewState =
  st_chain :: string
  st_address :: string
  st_label :: string

datatype FlowOutcome = InvalidAmount | MaximumReached | Success | ErrorSaving

definition handleMinAmountStep ::
  "Limits \<Rightarrow> Upstream \<Rightarrow> Db \<Rightarrow> nat \<Rightarrow> AddNewState \<Rightarrow> rat option \<Rightarrow> FlowOutcome \<times> Db" where
  "handleMinAmountStep limits up db tgUser st parsed =
     (case parsed of
        None \<Rightarrow> (InvalidAmount, db)
      | Some minAmount' \<Rightarrow>
          if minAmount' < 0 then (InvalidAmount, db)
          else
            let ch = st_chain st; addr = st_address st;
                (user, db1) = findOrCreateUser db (toString tgUser)
            in if length (activeOfUser db1 (u_id user)) \<ge> maxTrackedPerUser limits
               then (MaximumReached, db1)
               else
                 (case initialCursor up ch addr of
                    RpcError \<Rightarrow> (ErrorSaving, db1)
                  | RpcResult cursor \<Rightarrow>
                      let (tracked, db2) =
                            createTracked db1 (u_id user) ch (storedAddress ch addr)
                              (st_label st) minAmount' cursor
                      in (Success, db2)))"

section \<open>Polling worker (worker.ts)\<close>

text \<open>
  Sending an alert to the chat either returns or throws; the outcome for the alert of one
  (chain, transaction, tracked address) is the parameter \<open>send\<close>. The clock reading
  \<open>dateNow\<close> is in milliseconds.
\<close>

type_synonym sender = "string \<Rightarrow> string \<Rightarrow> nat \<Rightarrow> bool"

definition findUnique :: "AlertEvent list \<Rightarrow> string \<Rightarrow> string \<Rightarrow> nat \<Rightarrow> AlertEvent option" where
  "findUnique events ch tx tid =
     find (\<lambda>e. ev_chain e = ch \<and> txHashOrSig e = tx \<and> trackedAddressId e = tid) events"

definition markSent :: "AlertEvent list \<Rightarrow> string \<Rightarrow> string \<Rightarrow> nat \<Rightarrow> AlertEvent list" where
  "markSent events ch tx tid =
     map (\<lambda>e. if ev_chain e = ch \<and> txHashOrSig e = tx \<and> trackedAddressId e = tid
              then e\<lparr>sentToTelegram := True\<rparr> else e) events"

text \<open>The steps from the duplicate check to the delivery flag, shared by both pollers.\<close>

definition recordAndSend :: "sender \<Rightarrow> AlertEvent \<Rightarrow> AlertEvent list \<Rightarrow> AlertEvent list" where
  "recordAndSend send ev events =
     (case findUnique events (ev_chain ev) (txHashOrSig ev) (trackedAddressId ev) of
        Some existing \<Rightarrow> events
      | None \<Rightarrow>
          let events1 = events @ [ev]
          in if send (ev_chain ev) (txHashOrSig ev) (trackedAddressId ev)
             then markSent events1 (ev_chain ev) (txHashOrSig ev) (trackedAddressId ev)
             else events1)"

definition evmAlert ::
  "sender \<Rightarrow> rat \<Rightarrow> string \<Rightarrow> EVMTransaction \<Rightarrow> TrackedAddress \<Rightarrow> AlertEvent list \<Rightarrow> AlertEvent list" where
  "evmAlert send dateNow ch tx tracked events =
     (let normalizedTracked = normalizeAddress (address tracked);
          fromAddr = normalizeOrEmpty (tx_from tx);
          toAddr = normalizeOrEmpty (tx_to tx)
      in if fromAddr \<noteq> normalizedTracked \<and> toAddr \<noteq> normalizedTracked then events
         else
           let dir = (if fromAddr = normalizedTracked then Out else In);
               amt = weiToEth (tx_value tx);
               ast = getNativeAsset ch
           in if amt < minAmount tracked then events
              else recordAndSend send
                     \<lparr>trackedAddressId = ta_id tracked, ev_chain = ch, txHashOrSig = tx_hash tx,
                      ev_timestamp = (case tx_timestamp tx of Some t \<Rightarrow> of_nat t * 1000
                                      | None \<Rightarrow> dateNow),
                      ev_direction = dir, ev_amount = amt, ev_asset = ast,
                      sentToTelegram = False\<rparr> events)"

definition evmAlerts ::
  "sender \<Rightarrow> rat \<Rightarrow> string \<Rightarrow> TrackedAddress list \<Rightarrow> EVMTransaction list \<Rightarrow> AlertEvent list
     \<Rightarrow> AlertEvent list" where
  "evmAlerts send dateNow ch tracked txs events =
     foldl (\<lambda>evs tx. foldl (\<lambda>evs' t. evmAlert send dateNow ch tx t evs') evs tracked) events txs"

definition pollEvmChain :: "Upstream \<Rightarrow> sender \<Rightarrow> rat \<Rightarrow> string \<Rightarrow> Db \<Rightarrow> Db option" where
  "pollEvmChain up send dateNow ch db =
     (case chainCursors db ch of
        None \<Rightarrow>
          (case eth_blockNumber up ch of
             RpcError \<Rightarrow> None
           | RpcResult latestBlock \<Rightarrow> Some (db\<lparr>chainCursors := (chainCursors db)(ch \<mapsto> latestBlock)\<rparr>))
      | Some lastBlockNumber \<Rightarrow>
          let tracked = filter (\<lambda>t. chain t = ch \<and> isActive t) (trackedAddresses db)
          in if length tracked = 0 then Some db
             else
               let r = scanNewBlocks up ch lastBlockNumber (map address tracked);
                   db1 = db\<lparr>alertEvents :=
                              evmAlerts send dateNow ch tracked (transactions r) (alertEvents db)\<rparr>
               in if newCursor r \<noteq> lastBlockNumber
                  then Some (db1\<lparr>chainCursors := (chainCursors db1)(ch \<mapsto> newCursor r)\<rparr>)
                  else Some db1)"

text \<open>\<open>x || undefined\<close> for a string column: an empty string counts as absent.\<close>

definition truthy :: "string \<Rightarrow> string option" where
  "truthy x = (if x = [] then None else Some x)"

fun findIndex :: "('a \<Rightarrow> bool) \<Rightarrow> 'a list \<Rightarrow> nat \<Rightarrow> nat option" where
  "findIndex P [] i = None"
| "findIndex P (x # xs) i = (if P x then Some i else findIndex P xs (i + 1))"

definition getNewSignatures ::
  "Upstream \<Rightarrow> string \<Rightarrow> string option \<Rightarrow> SolanaSignature list \<times> string option" where
  "getNewSignatures up addr lastCursor =
     (let signatures = getSignaturesForAddress up addr 50
      in if length signatures = 0 then ([], lastCursor)
         else
           let newSignatures =
                 (case lastCursor of
                    None \<Rightarrow> signatures
                  | Some c \<Rightarrow>
                      (case findIndex (\<lambda>sig. signature sig = c) signatures 0 of
                         None \<Rightarrow> signatures
                       | Some cursorIndex \<Rightarrow>
                           if cursorIndex > 0 then take cursorIndex signatures else []));
               head_sig = signature (hd signatures);
               newCursor' = (if head_sig \<noteq> [] then Some head_sig else lastCursor)
           in (newSignatures, newCursor'))"

definition solAlert ::
  "Upstream \<Rightarrow> sender \<Rightarrow> rat \<Rightarrow> TrackedAddress \<Rightarrow> SolanaSignature \<Rightarrow> AlertEvent list \<Rightarrow> AlertEvent list" where
  "solAlert up send dateNow tracked sig events =
     (if err sig then events
      else case parseTransactionAmount up (address tracked) (signature sig) of
             None \<Rightarrow> events
           | Some (amt, dir) \<Rightarrow>
               if amt < minAmount tracked then events
               else recordAndSend send
                      \<lparr>trackedAddressId = ta_id tracked, ev_chain = ''sol'',
                       txHashOrSig = signature sig,
                       ev_timestamp = (case blockTime sig of
                                         Some t \<Rightarrow> if t = 0 then dateNow else t * 1000
                                       | None \<Rightarrow> dateNow),
                       ev_direction = dir, ev_amount = amt, ev_asset = ''SOL'',
                       sentToTelegram = False\<rparr> events)"

definition setCursor :: "nat \<Rightarrow> string \<Rightarrow> TrackedAddress list \<Rightarrow> TrackedAddress list" where
  "setCursor tid c ts = map (\<lambda>t. if ta_id t = tid then t\<lparr>lastSeenCursor := c\<rparr> else t) ts"

definition pollSolanaAddress :: "Upstream \<Rightarrow> sender \<Rightarrow> rat \<Rightarrow> Db \<Rightarrow> TrackedAddress \<Rightarrow> Db" where
  "pollSolanaAddress up send dateNow db tracked =
     (let lastCursor = truthy (lastSeenCursor tracked);
          (signatures, newCursor') = getNewSignatures up (address tracked) lastCursor
      in if length signatures = 0 then db
         else
           let db1 = db\<lparr>alertEvents :=
                          foldl (\<lambda>evs sig. solAlert up send dateNow tracked sig evs)
                            (alertEvents db) signatures\<rparr>
           in (case newCursor' of
                 None \<Rightarrow> db1
               | Some c \<Rightarrow>
                   if c \<noteq> lastSeenCursor tracked
                   then db1\<lparr>trackedAddresses := setCursor (ta_id tracked) c (trackedAddresses db1)\<rparr>
                   else db1))"

definition pollSolana :: "Upstream \<Rightarrow> sender \<Rightarrow> rat \<Rightarrow> Db \<Rightarrow> Db" where
  "pollSolana up send dateNow db =
     (let tracked = filter (\<lambda>t. chain t = ''sol'' \<and> isActive t) (trackedAddresses db)
      in foldl (pollSolanaAddress up send dateNow) db tracked)"

section \<open>On-demand check (routes/check.ts, POST /check)\<close>




record CheckResult =
  cr_riskScore :: rat
  cr_riskLevel :: RiskLevel
  cr_reasons :: "string list"
  recentActivity :: "TransactionActivity list"
  explorerLink :: string



section \<open>Concrete inputs\<close>

text \<open>Inputs at which the theorems below are instantiated.\<close>

definition tx_a :: TransactionActivity where
  "tx_a = \<lparr>hash = ''0xa'', timestamp = 1700000100, from_addr = ''0x1'', to_addr = ''0x2'',
            amount = 3 / 2, asset = ''ETH'', direction = In\<rparr>"

definition tx_b :: TransactionActivity where
  "tx_b = \<lparr>hash = ''0xb'', timestamp = 1700000040, from_addr = ''0x2'', to_addr = ''0x1'',
            amount = 7, asset = ''ETH'', direction = Out\<rparr>"

definition tx_c :: TransactionActivity where
  "tx_c = \<lparr>hash = ''0xc'', timestamp = 1700000000, from_addr = ''0x2'', to_addr = ''0x1'',
            amount = 123 / 1000, asset = ''ETH'', direction = In\<rparr>"

definition burst :: "TransactionActivity list" where
  "burst = replicate 10 tx_c"

section \<open>Rounding as the specification words it\<close>




text \<open>A transaction in which the balance of \<open>sol_target\<close> falls by 5 lamports.\<close>

definition sol_target :: string where
  "sol_target = ''Target111111111111111111111111111111''"

definition sol_payer :: string where
  "sol_payer = ''Payer1111111111111111111111111111111''"


section \<open>The cursor after a poll, and the specification's contiguous height\<close>

text \<open>The chain cursor that a poll leaves in the database; \<open>None\<close> if the poll threw.\<close>

definition cursorAfter :: "Db option \<Rightarrow> string \<Rightarrow> int option" where
  "cursorAfter r ch = (case r of None \<Rightarrow> None | Some db' \<Rightarrow> chainCursors db' ch)"

text \<open>
  The last contiguously fetched block of a window, written from the wording of the
  specification: the height before the first block of the window whose fetch fails.
\<close>

definition fetched :: "Upstream \<Rightarrow> string \<Rightarrow> int \<Rightarrow> bool" where
  "fetched up ch n \<longleftrightarrow> eth_getBlockByNumber up ch n \<noteq> RpcError"

definition lastContiguouslyFetched :: "Upstream \<Rightarrow> string \<Rightarrow> int \<Rightarrow> int \<Rightarrow> int" where
  "lastContiguouslyFetched up ch fromBlock toBlock =
     fromBlock - 1 + int (length (takeWhile (fetched up ch) [fromBlock..toBlock]))"

text \<open>A database with one user tracking one address on \<open>eth\<close>, scanned up to block 100.\<close>

definition addr1 :: string where
  "addr1 = ''0x00000000000000000000000000000000000000a1''"

definition user1 :: User where
  "user1 = \<lparr>u_id = 1, telegramUserId = ''501''\<rparr>"

definition tracked1 :: TrackedAddress where
  "tracked1 = \<lparr>ta_id = 1, userId = 1, chain = ''eth'', address = addr1, label = ''cold'',
                minAmount = 1 / 10, isActive = True, lastSeenCursor = ''100''\<rparr>"

definition db_at_100 :: Db where
  "db_at_100 = \<lparr>users = [user1], trackedAddresses = [tracked1], alertEvents = [],
                 chainCursors = [''eth'' \<mapsto> 100]\<rparr>"

definition empty_block :: EVMBlock where
  "empty_block = \<lparr>b_number = ''0x0'', b_timestamp = Some 1700000000, b_transactions = Some []\<rparr>"

text \<open>A node whose head is at block 90, behind the stored cursor.\<close>

definition up_behind :: Upstream where
  "up_behind = \<lparr>eth_blockNumber = (\<lambda>ch. RpcResult 90),
                 eth_getBlockByNumber = (\<lambda>ch n. RpcResult (Some empty_block)),
                 sol_getSignaturesForAddress = (\<lambda>a l. RpcResult None),
                 sol_getTransaction = (\<lambda>s. RpcResult None)\<rparr>"

text \<open>A node whose head is at block 105 and whose fetch of block 103 fails.\<close>

definition up_gap :: Upstream where
  "up_gap = \<lparr>eth_blockNumber = (\<lambda>ch. RpcResult 105),
              eth_getBlockByNumber = (\<lambda>ch n. if n = 103 then RpcError else RpcResult (Some empty_block)),
              sol_getSignaturesForAddress = (\<lambda>a l. RpcResult None),
              sol_getTransaction = (\<lambda>s. RpcResult None)\<rparr>"

definition never_sent :: sender where
  "never_sent ch tx tid = False"

definition always_sent :: sender where
  "always_sent ch tx tid = True"

section \<open>Auxiliary notions for the alert ledger\<close>

text \<open>The unique key of an alert event, and the keys present in the table.\<close>

definition alertKey :: "AlertEvent \<Rightarrow> string \<times> string \<times> nat" where
  "alertKey e = (ev_chain e, txHashOrSig e, trackedAddressId e)"

definition ledgerKeys :: "AlertEvent list \<Rightarrow> (string \<times> string \<times> nat) set" where
  "ledgerKeys events = alertKey ` set events"

text \<open>The alert event that \<open>pollEvmChain\<close> writes for a transaction and a tracked address.\<close>

definition evmEvent :: "rat \<Rightarrow> string \<Rightarrow> EVMTransaction \<Rightarrow> TrackedAddress \<Rightarrow> AlertEvent" where
  "evmEvent dateNow ch tx tracked =
     \<lparr>trackedAddressId = ta_id tracked, ev_chain = ch, txHashOrSig = tx_hash tx,
      ev_timestamp = (case tx_timestamp tx of Some t \<Rightarrow> of_nat t * 1000 | None \<Rightarrow> dateNow),
      ev_direction = (if normalizeOrEmpty (tx_from tx) = normalizeAddress (address tracked)
                      then Out else In),
      ev_amount = weiToEth (tx_value tx), ev_asset = getNativeAsset ch,
      sentToTelegram = False\<rparr>"

text \<open>Whether a transaction touches a tracked address and meets its threshold.\<close>

definition evmQualifies :: "EVMTransaction \<Rightarrow> TrackedAddress \<Rightarrow> bool" where
  "evmQualifies tx tracked \<longleftrightarrow>
     (normalizeOrEmpty (tx_from tx) = normalizeAddress (address tracked)
        \<or> normalizeOrEmpty (tx_to tx) = normalizeAddress (address tracked))
     \<and> \<not> weiToEth (tx_value tx) < minAmount tracked"

text \<open>The same for a signature of a tracked Solana address.\<close>

definition solEvent :: "Upstream \<Rightarrow> rat \<Rightarrow> TrackedAddress \<Rightarrow> SolanaSignature \<Rightarrow> AlertEvent" where
  "solEvent up dateNow tracked sig =
     \<lparr>trackedAddressId = ta_id tracked, ev_chain = ''sol'', txHashOrSig = signature sig,
      ev_timestamp = (case blockTime sig of
                        Some t \<Rightarrow> if t = 0 then dateNow else t * 1000
                      | None \<Rightarrow> dateNow),
      ev_direction = (case parseTransactionAmount up (address tracked) (signature sig) of
                        Some (amt, dir) \<Rightarrow> dir | None \<Rightarrow> In),
      ev_amount = (case parseTransactionAmount up (address tracked) (signature sig) of
                     Some (amt, dir) \<Rightarrow> amt | None \<Rightarrow> 0),
      ev_asset = ''SOL'', sentToTelegram = False\<rparr>"

definition solQualifies :: "Upstream \<Rightarrow> TrackedAddress \<Rightarrow> SolanaSignature \<Rightarrow> bool" where
  "solQualifies up tracked sig \<longleftrightarrow>
     \<not> err sig \<and>
     (case parseTransactionAmount up (address tracked) (signature sig) of
        None \<Rightarrow> False
      | Some (amt, dir) \<Rightarrow> \<not> amt < minAmount tracked)"

text \<open>The signatures that one cycle processes for a tracked Solana address.\<close>

definition newSignaturesOf :: "Upstream \<Rightarrow> TrackedAddress \<Rightarrow> SolanaSignature list" where
  "newSignaturesOf up tracked =
     fst (getNewSignatures up (address tracked) (truthy (lastSeenCursor tracked)))"

text \<open>
  The scenario of the specification: cursor at block 100, head at 105, one transfer of
  0.05 ETH out of the tracked address in block 103; on Solana one signature whose
  transaction raises the balance of the tracked address by 0.5 SOL.
\<close>

definition tx_out :: EVMTransaction where
  "tx_out = \<lparr>tx_hash = ''0xfeed'', tx_from = Some ''0x00000000000000000000000000000000000000A1'',
              tx_to = Some ''0x00000000000000000000000000000000000000b2'',
              tx_value = 50000000000000000, tx_blockNumber = ''0x67'', tx_timestamp = None\<rparr>"

definition block_103 :: EVMBlock where
  "block_103 = \<lparr>b_number = ''0x67'', b_timestamp = Some 1700000036,
                 b_transactions = Some [TxHash ''0xbeef'', TxObject tx_out]\<rparr>"

definition sig1 :: SolanaSignature where
  "sig1 = \<lparr>signature = ''5j7KsigA'', slot = 7, blockTime = Some 1700000050, err = False\<rparr>"

definition tx_plus :: SolanaTransaction where
  "tx_plus = \<lparr>accountKeys = [sol_payer, sol_target], preBalances = [900000000, 1000000000],
               postBalances = [399995000, 1500000000]\<rparr>"

definition up_transfer :: Upstream where
  "up_transfer = \<lparr>eth_blockNumber = (\<lambda>ch. RpcResult 105),
                   eth_getBlockByNumber =
                     (\<lambda>ch n. if n = 103 then RpcResult (Some block_103)
                             else RpcResult (Some empty_block)),
                   sol_getSignaturesForAddress = (\<lambda>a l. RpcResult (Some [sig1])),
                   sol_getTransaction = (\<lambda>s. RpcResult (Some tx_plus))\<rparr>"

definition tracked_low :: TrackedAddress where
  "tracked_low = tracked1\<lparr>minAmount := 1 / 100\<rparr>"

definition tracked_eq :: TrackedAddress where
  "tracked_eq = tracked1\<lparr>minAmount := 1 / 20\<rparr>"

definition db_low :: Db where
  "db_low = db_at_100\<lparr>trackedAddresses := [tracked_low]\<rparr>"

definition tracked_sol :: TrackedAddress where
  "tracked_sol = \<lparr>ta_id = 2, userId = 1, chain = ''sol'', address = sol_target, label = ''hot'',
                   minAmount = 1 / 2, isActive = True, lastSeenCursor = []\<rparr>"

definition event_out :: AlertEvent where
  "event_out = \<lparr>trackedAddressId = 1, ev_chain = ''eth'', txHashOrSig = ''0xfeed'',
                 ev_timestamp = 1700000036000, ev_direction = Out, ev_amount = 1 / 20,
                 ev_asset = ''ETH'', sentToTelegram = True\<rparr>"

definition tracked_zero :: TrackedAddress where
  "tracked_zero = tracked1\<lparr>minAmount := 0\<rparr>"

definition tracked_sol_high :: TrackedAddress where
  "tracked_sol_high = tracked_sol\<lparr>minAmount := 1\<rparr>"

definition tracked_sol_zero :: TrackedAddress where
  "tracked_sol_zero = tracked_sol\<lparr>minAmount := 0\<rparr>"

text \<open>The (tracked address, signature) pairs that one Solana cycle processes, in order.\<close>

definition solItems :: "Upstream \<Rightarrow> TrackedAddress list \<Rightarrow> (TrackedAddress \<times> SolanaSignature) list" where
  "solItems up ts = concat (map (\<lambda>t. map (Pair t) (newSignaturesOf up t)) ts)"

text \<open>The database after the cycle of the scenario with threshold 0.01.\<close>

definition db_alerted :: Db where
  "db_alerted = db_low\<lparr>alertEvents := [event_out], chainCursors := [''eth'' \<mapsto> 105]\<rparr>"

text \<open>
  A system at its total limit: two active tracked addresses of two users with a total
  limit of 2, and a third user who has none.
\<close>

definition limits_small :: Limits where
  "limits_small = \<lparr>maxTrackedPerUser = 2, maxTrackedTotal = 2\<rparr>"

definition user2 :: User where
  "user2 = \<lparr>u_id = 2, telegramUserId = ''502''\<rparr>"

definition tracked2 :: TrackedAddress where
  "tracked2 = \<lparr>ta_id = 2, userId = 2, chain = ''eth'',
                address = ''0x00000000000000000000000000000000000000b2'', label = ''warm'',
                minAmount = 0, isActive = True, lastSeenCursor = ''100''\<rparr>"

definition db_full :: Db where
  "db_full = \<lparr>users = [user1, user2], trackedAddresses = [tracked1, tracked2],
               alertEvents = [], chainCursors = [''eth'' \<mapsto> 100]\<rparr>"

definition addr_new :: string where
  "addr_new = ''0x00000000000000000000000000000000000000C3''"

definition st_new :: AddNewState where
  "st_new = \<lparr>st_chain = ''eth'', st_address = addr_new, st_label = ''third''\<rparr>"

definition req_new :: AddNewRequest where
  "req_new = \<lparr>req_telegramUserId = ''777'', req_chain = ''eth'', req_address = addr_new,
               req_label = ''third'', req_minAmount = Some 0\<rparr>"

definition user3 :: User where
  "user3 = \<lparr>u_id = 3, telegramUserId = ''777''\<rparr>"

definition tracked3 :: TrackedAddress where
  "tracked3 = \<lparr>ta_id = 3, userId = 3, chain = ''eth'',
                address = ''0x00000000000000000000000000000000000000c3'', label = ''third'',
                minAmount = 0, isActive = True, lastSeenCursor = ''105''\<rparr>"

section \<open>Time order of the records that the readers return\<close>








section \<open>Properties of the risk score\<close>

lemma math_round_of_int: "math_round (of_int k) = k"
  unfolding math_round_def by (rule floor_unique) auto

lemma int_score_velocity:
  "\<exists>k::int. score (analyzeVelocity xs) = of_int k \<and> 0 \<le> k \<and> k \<le> 25"
  by (simp add: analyzeVelocity_def no_score_def Let_def)

lemma int_score_spikes:
  "\<exists>k::int. score (analyzeSpikes xs) = of_int k \<and> 0 \<le> k \<and> k \<le> 20"
  by (simp add: analyzeSpikes_def no_score_def Let_def)

lemma int_score_age:
  "\<exists>k::int. score (analyzeWalletAge d xs) = of_int k \<and> 0 \<le> k \<and> k \<le> 20"
  by (simp add: analyzeWalletAge_def no_score_def Let_def)

lemma int_score_patterns:
  "\<exists>k::int. score (analyzePatterns xs) = of_int k \<and> 0 \<le> k \<and> k \<le> 15"
  by (simp add: analyzePatterns_def no_score_def Let_def)

lemma int_score_flows:
  "\<exists>k::int. score (analyzeFlows xs) = of_int k \<and> 0 \<le> k \<and> k \<le> 20"
  by (simp add: analyzeFlows_def no_score_def Let_def)

text \<open>
  The sum of the five sub-scores is an integer between 0 and 100, so neither the clamp nor
  the rounding changes it, and the level is computed from the value that is returned.
\<close>

lemma calculateRiskScore_int:
  "\<exists>k::int. 0 \<le> k \<and> k \<le> 100 \<and> riskScore (calculateRiskScore d xs) = of_int k
      \<and> riskLevel (calculateRiskScore d xs) = getRiskLevel (of_int k)"
proof (cases "length xs = 0")
  case True
  then have "riskScore (calculateRiskScore d xs) = of_int 0"
    and "riskLevel (calculateRiskScore d xs) = getRiskLevel (of_int 0)"
    by (simp_all add: calculateRiskScore_def getRiskLevel_def)
  then show ?thesis by (intro exI[of _ 0]) simp
next
  case False
  obtain a where a: "score (analyzeVelocity xs) = of_int a" "0 \<le> a" "a \<le> 25"
    using int_score_velocity by blast
  obtain b where b: "score (analyzeSpikes xs) = of_int b" "0 \<le> b" "b \<le> 20"
    using int_score_spikes by blast
  obtain c where c: "score (analyzeWalletAge d xs) = of_int c" "0 \<le> c" "c \<le> 20"
    using int_score_age by blast
  obtain p where p: "score (analyzePatterns xs) = of_int p" "0 \<le> p" "p \<le> 15"
    using int_score_patterns by blast
  obtain e where e: "score (analyzeFlows xs) = of_int e" "0 \<le> e" "e \<le> 20"
    using int_score_flows by blast
  let ?k = "a + b + c + p + e"
  have tot: "score (analyzeVelocity xs) + score (analyzeSpikes xs) + score (analyzeWalletAge d xs)
      + score (analyzePatterns xs) + score (analyzeFlows xs) = (of_int ?k :: rat)"
    by (simp add: a b c p e)
  have k: "0 \<le> ?k" "?k \<le> 100" using a b c p e by linarith+
  have cap: "min 100 (max 0 (of_int ?k :: rat)) = of_int ?k"
  proof -
    have "(0::rat) \<le> of_int ?k" using k(1) by (simp only: of_int_0_le_iff)
    moreover have "(of_int ?k :: rat) \<le> 100" using k(2) by (metis of_int_le_iff of_int_numeral)
    ultimately show ?thesis by simp
  qed
  have "riskScore (calculateRiskScore d xs) = of_int ?k"
    using False by (simp add: calculateRiskScore_def Let_def tot cap math_round_of_int del: of_int_add)
  moreover have "riskLevel (calculateRiskScore d xs) = getRiskLevel (of_int ?k)"
    using False by (simp add: calculateRiskScore_def Let_def tot cap del: of_int_add)
  ultimately show ?thesis using k by blast
qed

lemma getRiskLevel_of_int:
  "(getRiskLevel (of_int k) = Critical \<longleftrightarrow> 70 \<le> k) \<and>
   (getRiskLevel (of_int k) = High \<longleftrightarrow> 50 \<le> k \<and> k < 70) \<and>
   (getRiskLevel (of_int k) = Medium \<longleftrightarrow> 25 \<le> k \<and> k < 50) \<and>
   (getRiskLevel (of_int k) = Low \<longleftrightarrow> k < 25)"
  by (simp add: getRiskLevel_def)

text \<open>
  C9. For every activity list (and every clock reading) the returned \<open>riskScore\<close> is an
  integer between 0 and 100, and the returned \<open>riskLevel\<close> is determined by it: critical
  iff the score is at least 70, high iff it is in [50, 70), medium iff it is in [25, 50),
  low iff it is below 25.
\<close>

theorem riskScore_range_and_level:
  fixes dateNow :: rat and activity :: "TransactionActivity list"
  defines "r \<equiv> calculateRiskScore dateNow activity"
  shows "riskScore r \<in> \<int> \<and> 0 \<le> riskScore r \<and> riskScore r \<le> 100 \<and>
    (riskLevel r = Critical \<longleftrightarrow> riskScore r \<ge> 70) \<and>
    (riskLevel r = High \<longleftrightarrow> 50 \<le> riskScore r \<and> riskScore r < 70) \<and>
    (riskLevel r = Medium \<longleftrightarrow> 25 \<le> riskScore r \<and> riskScore r < 50) \<and>
    (riskLevel r = Low \<longleftrightarrow> riskScore r < 25)"
proof -
  obtain k :: int where k: "0 \<le> k" "k \<le> 100" "riskScore r = of_int k"
    "riskLevel r = getRiskLevel (of_int k)"
    unfolding r_def using calculateRiskScore_int by blast
  show ?thesis
    unfolding k(3) k(4) using k(1,2) getRiskLevel_of_int[of k] by simp
qed

subsection \<open>Reordering the activity list\<close>















subsection \<open>The clock\<close>

lemma no_age_below_10: "length xs < 10 \<Longrightarrow> analyzeWalletAge d xs = no_score"
  by (simp add: analyzeWalletAge_def Let_def)

lemma clock_only_through_age:
  assumes "analyzeWalletAge d1 xs = analyzeWalletAge d2 xs"
  shows "calculateRiskScore d1 xs = calculateRiskScore d2 xs"
  unfolding calculateRiskScore_def by (simp only: assms)

lemma burst_score_early: "riskScore (calculateRiskScore 1700000600000 burst) = 45"
  by code_simp

lemma burst_score_late: "riskScore (calculateRiskScore 1800000000000 burst) = 25"
  by code_simp

text \<open>
  C4, as stated, fails: the same ten records score 45 ten minutes after the first of
  them and 25 three years later, because \<open>analyzeWalletAge\<close> reads the clock.
\<close>

theorem calculateRiskScore_clock_counterexample:
  "calculateRiskScore 1700000600000 burst \<noteq> calculateRiskScore 1800000000000 burst"
proof
  assume "calculateRiskScore 1700000600000 burst = calculateRiskScore 1800000000000 burst"
  then have "riskScore (calculateRiskScore 1700000600000 burst)
      = riskScore (calculateRiskScore 1800000000000 burst)"
    by (rule arg_cong)
  then show False
    unfolding burst_score_early burst_score_late by simp
qed

text \<open>
  C4, amended. The result is a function of the activity list and of the clock reading, and
  the clock enters through the age sub-score only: two invocations on the same list return
  the same score, level and reasons whenever the age sub-score is the same at both clock
  readings, which is the case for every list of fewer than 10 records.
\<close>

theorem calculateRiskScore_clock:
  "(analyzeWalletAge d1 xs = analyzeWalletAge d2 xs
      \<longrightarrow> calculateRiskScore d1 xs = calculateRiskScore d2 xs) \<and>
   (length xs < 10 \<longrightarrow> calculateRiskScore d1 xs = calculateRiskScore d2 xs)"
proof (intro conjI impI)
  assume "analyzeWalletAge d1 xs = analyzeWalletAge d2 xs"
  then show "calculateRiskScore d1 xs = calculateRiskScore d2 xs"
    by (rule clock_only_through_age)
next
  assume "length xs < 10"
  then have "analyzeWalletAge d1 xs = analyzeWalletAge d2 xs"
    by (simp only: no_age_below_10)
  then show "calculateRiskScore d1 xs = calculateRiskScore d2 xs"
    by (rule clock_only_through_age)
qed

theorem calculateRiskScore_clock_witness:
  "length [tx_a, tx_b, tx_a] < 10 \<and>
   analyzeWalletAge 1700000600000 [tx_a, tx_b, tx_a] = analyzeWalletAge 1800000000000 [tx_a, tx_b, tx_a] \<and>
   calculateRiskScore 1700000600000 [tx_a, tx_b, tx_a] = calculateRiskScore 1800000000000 [tx_a, tx_b, tx_a]"
proof -
  have l: "length [tx_a, tx_b, tx_a] < 10" by simp
  have a: "analyzeWalletAge 1700000600000 [tx_a, tx_b, tx_a] = analyzeWalletAge 1800000000000 [tx_a, tx_b, tx_a]"
    using l by (simp only: no_age_below_10)
  show ?thesis
    using l a calculateRiskScore_clock[of 1700000600000 "[tx_a, tx_b, tx_a]" 1800000000000]
    by blast
qed

section \<open>Native-amount conversion\<close>









section \<open>Block-range scanning and the chain cursor\<close>

text \<open>The block loop collects, in ascending height, what each block of the window adds.\<close>

lemma scanLoop_concat:
  "scanLoop up ch m a b acc = acc @ concat (map (scanBlock up ch m) [a..b])"
proof (induction up ch m a b acc rule: scanLoop.induct)
  case (1 up ch m a b acc)
  show ?case
  proof (cases "a \<le> b")
    case True
    have u: "[a..b] = a # [a + 1..b]" using True by (rule upto_rec1)
    have "scanLoop up ch m a b acc = scanLoop up ch m (a + 1) b (acc @ scanBlock up ch m a)"
      using True by (subst scanLoop.simps) simp
    also have "\<dots> = (acc @ scanBlock up ch m a) @ concat (map (scanBlock up ch m) [a + 1..b])"
      using True by (rule "1.IH")
    finally show ?thesis by (simp add: u)
  next
    case False
    then show ?thesis by (subst scanLoop.simps) simp
  qed
qed

lemma scanNewBlocks_error:
  "eth_blockNumber up ch = RpcError
     \<Longrightarrow> scanNewBlocks up ch c addrs = \<lparr>transactions = [], newCursor = c\<rparr>"
  by (simp add: scanNewBlocks_def)

lemma scanNewBlocks_behind:
  "eth_blockNumber up ch = RpcResult h \<Longrightarrow> h \<le> c
     \<Longrightarrow> scanNewBlocks up ch c addrs = \<lparr>transactions = [], newCursor = h\<rparr>"
  by (simp add: scanNewBlocks_def)

lemma scanNewBlocks_ahead:
  "eth_blockNumber up ch = RpcResult h \<Longrightarrow> c < h
     \<Longrightarrow> scanNewBlocks up ch c addrs =
           \<lparr>transactions = concat (map (scanBlock up ch (matchesAny (map normalizeAddress addrs)))
                                    [c + 1..min h (c + 50)]),
            newCursor = min h (c + 50)\<rparr>"
proof -
  assume head: "eth_blockNumber up ch = RpcResult h" and "c < h"
  then have f: "\<not> (c + 1 > h)" by simp
  have e: "c + 1 + 50 - 1 = c + 50" by simp
  show ?thesis
    unfolding scanNewBlocks_def Let_def
    by (simp only: head rpc.case f if_False e scanLoop_concat append_Nil)
qed

lemma scanBlock_failed: "eth_getBlockByNumber up ch n = RpcError \<Longrightarrow> scanBlock up ch m n = []"
  by (simp add: scanBlock_def)

lemma up_gap_head: "eth_blockNumber up_gap ''eth'' = RpcResult 105"
  by (simp add: up_gap_def)

lemma up_behind_head: "eth_blockNumber up_behind ''eth'' = RpcResult 90"
  by (simp add: up_behind_def)

lemma up_gap_103: "eth_getBlockByNumber up_gap ''eth'' 103 = RpcError"
  by (simp add: up_gap_def)

lemma up_gap_newCursor: "newCursor (scanNewBlocks up_gap ''eth'' 100 [addr1]) = 105"
  using scanNewBlocks_ahead[OF up_gap_head, of 100 "[addr1]"] by simp

lemma up_behind_newCursor: "newCursor (scanNewBlocks up_behind ''eth'' 100 [addr1]) = 90"
  using scanNewBlocks_behind[OF up_behind_head, of 100 "[addr1]"] by simp

text \<open>
  C2, as stated, fails: with the cursor at 100, the head at 105 and the fetch of block 103
  failing, the last contiguously fetched block is 102, and \<open>scanNewBlocks\<close> returns 105.
\<close>

theorem scanNewBlocks_gap_counterexample:
  "eth_getBlockByNumber up_gap ''eth'' 103 = RpcError \<and>
   newCursor (scanNewBlocks up_gap ''eth'' 100 [addr1]) = 105 \<and>
   lastContiguouslyFetched up_gap ''eth'' 101 105 = 102"
proof (intro conjI)
  show "eth_getBlockByNumber up_gap ''eth'' 103 = RpcError" by (rule up_gap_103)
  show "newCursor (scanNewBlocks up_gap ''eth'' 100 [addr1]) = 105" by (rule up_gap_newCursor)
  show "lastContiguouslyFetched up_gap ''eth'' 101 105 = 102"
    by (simp add: lastContiguouslyFetched_def fetched_def up_gap_def upto_rec1)
qed

text \<open>
  C2, amended. For every block-range scan that finds the head above the cursor, the
  height returned as the new cursor candidate is the end of the scanned window,
  \<open>min(head, cursor + 50)\<close>, whether or not a block fetch failed; the returned
  transactions are those of the blocks of the window in ascending height, and a block
  whose fetch fails contributes none.
\<close>

theorem scanNewBlocks_window_end:
  assumes "eth_blockNumber up ch = RpcResult h" and "c < h"
  shows "newCursor (scanNewBlocks up ch c addrs) = min h (c + 50) \<and>
         transactions (scanNewBlocks up ch c addrs)
           = concat (map (scanBlock up ch (matchesAny (map normalizeAddress addrs)))
                         [c + 1..min h (c + 50)]) \<and>
         (\<forall>n. eth_getBlockByNumber up ch n = RpcError
               \<longrightarrow> scanBlock up ch (matchesAny (map normalizeAddress addrs)) n = [])"
  using scanNewBlocks_ahead[OF assms] scanBlock_failed by simp

theorem scanNewBlocks_window_end_witness:
  "eth_blockNumber up_gap ''eth'' = RpcResult 105 \<and> (100::int) < 105 \<and>
   eth_getBlockByNumber up_gap ''eth'' 103 = RpcError \<and>
   newCursor (scanNewBlocks up_gap ''eth'' 100 [addr1]) = 105 \<and>
   scanBlock up_gap ''eth'' (matchesAny (map normalizeAddress [addr1])) 103 = []"
proof -
  have lt: "(100::int) < 105" by simp
  show ?thesis
    using up_gap_head lt up_gap_103 scanNewBlocks_window_end[OF up_gap_head lt, of "[addr1]"]
    by simp
qed

subsection \<open>The cursor written back by a poll\<close>

lemma cursorAfter_poll:
  assumes "chainCursors db ch = Some c"
    and "filter (\<lambda>t. chain t = ch \<and> isActive t) (trackedAddresses db) \<noteq> []"
  shows "cursorAfter (pollEvmChain up send d ch db) ch
    = Some (newCursor (scanNewBlocks up ch c
        (map address (filter (\<lambda>t. chain t = ch \<and> isActive t) (trackedAddresses db)))))"
  using assms by (simp add: pollEvmChain_def cursorAfter_def Let_def)

lemma db_at_100_tracked:
  "filter (\<lambda>t. chain t = ''eth'' \<and> isActive t) (trackedAddresses db_at_100) = [tracked1]"
  by (simp add: db_at_100_def tracked1_def)

lemma db_at_100_cursor: "chainCursors db_at_100 ''eth'' = Some 100"
  by (simp add: db_at_100_def)

text \<open>
  C1, as stated, fails: with the stored cursor at 100 and a node that reports its head at
  90, \<open>scanNewBlocks\<close> returns 90 and the poll writes 90 back.
\<close>

theorem pollEvmChain_cursor_counterexample:
  "chainCursors db_at_100 ''eth'' = Some 100 \<and>
   newCursor (scanNewBlocks up_behind ''eth'' 100 [addr1]) = 90 \<and>
   cursorAfter (pollEvmChain up_behind never_sent 0 ''eth'' db_at_100) ''eth'' = Some 90"
proof -
  have "address tracked1 = addr1" by (simp add: tracked1_def)
  then have "cursorAfter (pollEvmChain up_behind never_sent 0 ''eth'' db_at_100) ''eth'' = Some 90"
    using cursorAfter_poll[OF db_at_100_cursor, of up_behind never_sent 0] up_behind_newCursor
    by (simp add: db_at_100_tracked)
  then show ?thesis
    using db_at_100_cursor up_behind_newCursor by simp
qed

text \<open>
  C1, amended. Every poll of a chain that has a stored cursor returns and leaves a cursor.
  The new cursor equals the stored one when the head request fails; it is at least the
  stored one, and at most the head, when the reported head is not below the stored
  cursor. When the reported head is below the stored cursor, the cursor is set to the
  reported head (it stays where it was only if the chain has no active tracked address,
  in which case nothing is scanned).
\<close>

theorem pollEvmChain_cursor:
  assumes "chainCursors db ch = Some c"
  shows "\<exists>c'. cursorAfter (pollEvmChain up send d ch db) ch = Some c' \<and>
          (case eth_blockNumber up ch of
             RpcError \<Rightarrow> c' = c
           | RpcResult h \<Rightarrow>
               if c \<le> h then c \<le> c' \<and> c' \<le> h
               else if filter (\<lambda>t. chain t = ch \<and> isActive t) (trackedAddresses db) = [] then c' = c
               else c' = h)"
proof (cases "filter (\<lambda>t. chain t = ch \<and> isActive t) (trackedAddresses db) = []")
  case True
  then have "cursorAfter (pollEvmChain up send d ch db) ch = Some c"
    using assms by (simp add: pollEvmChain_def cursorAfter_def)
  moreover have "case eth_blockNumber up ch of
             RpcError \<Rightarrow> c = c
           | RpcResult h \<Rightarrow>
               if c \<le> h then c \<le> c \<and> c \<le> h
               else if filter (\<lambda>t. chain t = ch \<and> isActive t) (trackedAddresses db) = [] then c = c
               else c = h"
    using True by (simp split: rpc.split)
  ultimately show ?thesis by blast
next
  case False
  let ?r = "scanNewBlocks up ch c
              (map address (filter (\<lambda>t. chain t = ch \<and> isActive t) (trackedAddresses db)))"
  have after: "cursorAfter (pollEvmChain up send d ch db) ch = Some (newCursor ?r)"
    using assms False by (rule cursorAfter_poll)
  show ?thesis
  proof (cases "eth_blockNumber up ch")
    case RpcError
    then show ?thesis using after by (simp add: scanNewBlocks_error)
  next
    case (RpcResult h)
    show ?thesis
    proof (cases "h \<le> c")
      case True
      then show ?thesis using after RpcResult False by (auto simp add: scanNewBlocks_behind)
    next
      case nb: False
      then have "c < h" by simp
      then show ?thesis using after RpcResult by (simp add: scanNewBlocks_ahead)
    qed
  qed
qed

theorem pollEvmChain_cursor_witness:
  "chainCursors db_at_100 ''eth'' = Some 100 \<and>
   (\<exists>c'. cursorAfter (pollEvmChain up_gap never_sent 0 ''eth'' db_at_100) ''eth'' = Some c' \<and>
          100 \<le> c' \<and> c' \<le> 105)"
  using db_at_100_cursor pollEvmChain_cursor[OF db_at_100_cursor, of up_gap never_sent 0]
  by (simp add: up_gap_head)

section \<open>The alert ledger: deduplication and the threshold filter\<close>

lemma findUnique_None_iff:
  "findUnique events ch tx tid = None \<longleftrightarrow> (ch, tx, tid) \<notin> ledgerKeys events"
  by (auto simp add: findUnique_def ledgerKeys_def alertKey_def find_None_iff)

lemma ledgerKeys_markSent: "ledgerKeys (markSent events ch tx tid) = ledgerKeys events"
proof -
  have "alertKey (if ev_chain e = ch \<and> txHashOrSig e = tx \<and> trackedAddressId e = tid
              then e\<lparr>sentToTelegram := True\<rparr> else e) = alertKey e" for e
    by (simp add: alertKey_def)
  then show ?thesis
    unfolding ledgerKeys_def markSent_def set_map image_image by (simp only:)
qed

lemma ledgerKeys_append: "ledgerKeys (events @ [ev]) = insert (alertKey ev) (ledgerKeys events)"
  by (simp add: ledgerKeys_def)

lemma recordAndSend_known:
  assumes "alertKey ev \<in> ledgerKeys events"
  shows "recordAndSend send ev events = events"
proof -
  have "findUnique events (ev_chain ev) (txHashOrSig ev) (trackedAddressId ev) \<noteq> None"
    using assms by (simp add: findUnique_None_iff alertKey_def)
  then show ?thesis by (auto simp add: recordAndSend_def)
qed

lemma recordAndSend_keys:
  "ledgerKeys (recordAndSend send ev events) = insert (alertKey ev) (ledgerKeys events)"
proof (cases "alertKey ev \<in> ledgerKeys events")
  case True
  then show ?thesis by (simp add: recordAndSend_known insert_absorb)
next
  case False
  then have "findUnique events (ev_chain ev) (txHashOrSig ev) (trackedAddressId ev) = None"
    by (simp add: findUnique_None_iff alertKey_def)
  then show ?thesis
    by (simp add: recordAndSend_def Let_def ledgerKeys_markSent ledgerKeys_append)
qed

lemma recordAndSend_new_length:
  assumes "alertKey ev \<notin> ledgerKeys events"
  shows "length (recordAndSend send ev events) = Suc (length events)"
proof -
  have "findUnique events (ev_chain ev) (txHashOrSig ev) (trackedAddressId ev) = None"
    using assms by (simp add: findUnique_None_iff alertKey_def)
  then show ?thesis
    by (simp add: recordAndSend_def Let_def markSent_def)
qed

lemma evmAlert_eq:
  "evmAlert send d ch tx tracked events =
     (if evmQualifies tx tracked then recordAndSend send (evmEvent d ch tx tracked) events
      else events)"
  by (auto simp add: evmAlert_def evmQualifies_def evmEvent_def Let_def)

lemma alertKey_evmEvent: "alertKey (evmEvent d ch tx tracked) = (ch, tx_hash tx, ta_id tracked)"
  by (simp add: alertKey_def evmEvent_def)

text \<open>
  Two passes over the same candidates: after the first pass the key of every qualifying
  candidate is in the table, so the second pass changes nothing.
\<close>

lemma first_pass_keys:
  fixes f :: "'i \<Rightarrow> AlertEvent list \<Rightarrow> AlertEvent list"
  assumes keys: "\<And>i evs. ledgerKeys (f i evs) = (if q i then insert (key i) (ledgerKeys evs) else ledgerKeys evs)"
  shows "ledgerKeys (foldl (\<lambda>evs i. f i evs) events items)
           = ledgerKeys events \<union> key ` {i \<in> set items. q i}"
proof (induction items arbitrary: events)
  case Nil
  show ?case by simp
next
  case (Cons i items)
  show ?case
    unfolding foldl_Cons Cons.IH keys by auto
qed

lemma second_pass_id:
  fixes g :: "'i \<Rightarrow> AlertEvent list \<Rightarrow> AlertEvent list"
  assumes known: "\<And>i evs. q i \<Longrightarrow> key i \<in> ledgerKeys evs \<Longrightarrow> g i evs = evs"
    and skip: "\<And>i evs. \<not> q i \<Longrightarrow> g i evs = evs"
    and "key ` {i \<in> set items. q i} \<subseteq> ledgerKeys events"
  shows "foldl (\<lambda>evs i. g i evs) events items = events"
  using assms(3)
proof (induction items)
  case Nil
  show ?case by simp
next
  case (Cons i items)
  have "g i events = events"
  proof (cases "q i")
    case True
    then have "key i \<in> ledgerKeys events" using Cons.prems by auto
    with True show ?thesis by (rule known)
  next
    case False
    then show ?thesis by (rule skip)
  qed
  moreover have "key ` {i \<in> set items. q i} \<subseteq> ledgerKeys events"
    using Cons.prems by auto
  ultimately show ?case
    using Cons.IH by simp
qed

lemma nested_foldl_product:
  "foldl (\<lambda>evs x. foldl (\<lambda>evs' y. F x y evs') evs ys) events xs
     = foldl (\<lambda>evs p. F (fst p) (snd p) evs) events (List.product xs ys)"
proof (induction xs arbitrary: events)
  case Nil
  show ?case by simp
next
  case (Cons x xs)
  have "foldl (\<lambda>evs p. F (fst p) (snd p) evs) events (map (Pair x) ys)
      = foldl (\<lambda>evs' y. F x y evs') events ys"
    by (simp add: foldl_map)
  then show ?case
    by (simp add: Cons.IH)
qed

lemma evmAlerts_product:
  "evmAlerts send d ch tracked txs events
     = foldl (\<lambda>evs p. evmAlert send d ch (fst p) (snd p) evs) events (List.product txs tracked)"
  unfolding evmAlerts_def by (rule nested_foldl_product)

lemma evmAlert_keys:
  "ledgerKeys (evmAlert send d ch (fst p) (snd p) evs)
     = (if evmQualifies (fst p) (snd p) then insert (ch, tx_hash (fst p), ta_id (snd p)) (ledgerKeys evs)
        else ledgerKeys evs)"
  by (simp add: evmAlert_eq recordAndSend_keys alertKey_evmEvent)

lemma evmAlerts_twice:
  "evmAlerts send2 d2 ch tracked txs (evmAlerts send1 d1 ch tracked txs events)
     = evmAlerts send1 d1 ch tracked txs events"
proof -
  let ?items = "List.product txs tracked"
  let ?q = "\<lambda>p. evmQualifies (fst p) (snd p)"
  let ?key = "\<lambda>p. (ch, tx_hash (fst p), ta_id (snd p))"
  let ?first = "foldl (\<lambda>evs p. evmAlert send1 d1 ch (fst p) (snd p) evs) events ?items"
  have k: "ledgerKeys ?first = ledgerKeys events \<union> ?key ` {i \<in> set ?items. ?q i}"
    by (rule first_pass_keys) (rule evmAlert_keys)
  have "foldl (\<lambda>evs p. evmAlert send2 d2 ch (fst p) (snd p) evs) ?first ?items = ?first"
  proof (rule second_pass_id[where q = ?q and key = ?key])
    fix i :: "EVMTransaction \<times> TrackedAddress" and evs
    assume "?q i" and "?key i \<in> ledgerKeys evs"
    then show "evmAlert send2 d2 ch (fst i) (snd i) evs = evs"
      by (simp add: evmAlert_eq recordAndSend_known alertKey_evmEvent)
  next
    fix i :: "EVMTransaction \<times> TrackedAddress" and evs
    assume "\<not> ?q i"
    then show "evmAlert send2 d2 ch (fst i) (snd i) evs = evs"
      by (simp add: evmAlert_eq)
  next
    show "?key ` {i \<in> set ?items. ?q i} \<subseteq> ledgerKeys ?first"
      unfolding k by blast
  qed
  then show ?thesis
    by (simp only: evmAlerts_product)
qed

lemma weiToEth_nonneg: "0 \<le> weiToEth wei"
proof -
  have "(0::rat) \<le> of_nat wei / 10 ^ 18 * 10 ^ 8" by simp
  then have "(0::rat) \<le> of_nat wei / 10 ^ 18 * 10 ^ 8 + 1 / 2" by linarith
  then have "0 \<le> math_round (of_nat wei / 10 ^ 18 * 10 ^ 8)"
    unfolding math_round_def by (simp only: zero_le_floor)
  then show ?thesis by (simp add: weiToEth_def Let_def)
qed

lemma solAlert_eq:
  "solAlert up send d tracked sig events =
     (if solQualifies up tracked sig then recordAndSend send (solEvent up d tracked sig) events
      else events)"
  by (auto simp add: solAlert_def solQualifies_def solEvent_def split: option.splits)

lemma alertKey_solEvent: "alertKey (solEvent up d tracked sig) = (''sol'', signature sig, ta_id tracked)"
  by (simp add: alertKey_def solEvent_def)

lemma nested_foldl_concat:
  "foldl (\<lambda>evs x. foldl (\<lambda>evs' y. F x y evs') evs (ys x)) events xs
     = foldl (\<lambda>evs p. F (fst p) (snd p) evs) events (concat (map (\<lambda>x. map (Pair x) (ys x)) xs))"
proof (induction xs arbitrary: events)
  case Nil
  show ?case by simp
next
  case (Cons x xs)
  have "foldl (\<lambda>evs p. F (fst p) (snd p) evs) events (map (Pair x) (ys x))
      = foldl (\<lambda>evs' y. F x y evs') events (ys x)"
    by (simp add: foldl_map)
  then show ?case
    by (simp add: Cons.IH)
qed

text \<open>The alert events that a Solana poll leaves behind.\<close>

lemma pollSolanaAddress_events:
  "alertEvents (pollSolanaAddress up send d db t)
     = foldl (\<lambda>evs sig. solAlert up send d t sig evs) (alertEvents db) (newSignaturesOf up t)"
  by (simp add: pollSolanaAddress_def newSignaturesOf_def Let_def split: prod.splits option.splits)

lemma foldl_pollSolanaAddress_events:
  "alertEvents (foldl (pollSolanaAddress up send d) db ts)
     = foldl (\<lambda>evs t. foldl (\<lambda>evs' sig. solAlert up send d t sig evs') evs (newSignaturesOf up t))
         (alertEvents db) ts"
proof (induction ts arbitrary: db)
  case Nil
  show ?case by simp
next
  case (Cons t ts)
  show ?case
    unfolding foldl_Cons Cons.IH pollSolanaAddress_events ..
qed

lemma pollSolana_events:
  "alertEvents (pollSolana up send d db)
     = foldl (\<lambda>evs p. solAlert up send d (fst p) (snd p) evs) (alertEvents db)
         (solItems up (filter (\<lambda>t. chain t = ''sol'' \<and> isActive t) (trackedAddresses db)))"
  unfolding pollSolana_def Let_def foldl_pollSolanaAddress_events solItems_def
  by (rule nested_foldl_concat)

lemma solAlert_keys:
  "ledgerKeys (solAlert up send d (fst p) (snd p) evs)
     = (if solQualifies up (fst p) (snd p)
        then insert (''sol'', signature (snd p), ta_id (fst p)) (ledgerKeys evs)
        else ledgerKeys evs)"
  by (simp add: solAlert_eq recordAndSend_keys alertKey_solEvent)

lemma solAlerts_twice:
  fixes items :: "(TrackedAddress \<times> SolanaSignature) list"
  shows "foldl (\<lambda>evs p. solAlert up send2 d2 (fst p) (snd p) evs)
      (foldl (\<lambda>evs p. solAlert up send1 d1 (fst p) (snd p) evs) events items) items
     = foldl (\<lambda>evs p. solAlert up send1 d1 (fst p) (snd p) evs) events items"
proof -
  let ?q = "\<lambda>p. solQualifies up (fst p) (snd p)"
  let ?key = "\<lambda>p. (''sol'', signature (snd p), ta_id (fst p))"
  let ?first = "foldl (\<lambda>evs p. solAlert up send1 d1 (fst p) (snd p) evs) events items"
  have k: "ledgerKeys ?first = ledgerKeys events \<union> ?key ` {i \<in> set items. ?q i}"
    by (rule first_pass_keys) (rule solAlert_keys)
  show "foldl (\<lambda>evs p. solAlert up send2 d2 (fst p) (snd p) evs) ?first items = ?first"
  proof (rule second_pass_id[where q = ?q and key = ?key])
    fix i :: "TrackedAddress \<times> SolanaSignature" and evs
    assume "?q i" and "?key i \<in> ledgerKeys evs"
    then show "solAlert up send2 d2 (fst i) (snd i) evs = evs"
      by (simp add: solAlert_eq recordAndSend_known alertKey_solEvent)
  next
    fix i :: "TrackedAddress \<times> SolanaSignature" and evs
    assume "\<not> ?q i"
    then show "solAlert up send2 d2 (fst i) (snd i) evs = evs"
      by (simp add: solAlert_eq)
  next
    show "?key ` {i \<in> set items. ?q i} \<subseteq> ledgerKeys ?first"
      unfolding k by blast
  qed
qed

lemma pollSolana_twice:
  "alertEvents (pollSolana up send2 d2
      ((pollSolana up send1 d1 db)\<lparr>trackedAddresses := trackedAddresses db\<rparr>))
     = alertEvents (pollSolana up send1 d1 db)"
proof -
  let ?items = "solItems up (filter (\<lambda>t. chain t = ''sol'' \<and> isActive t) (trackedAddresses db))"
  let ?first = "foldl (\<lambda>evs p. solAlert up send1 d1 (fst p) (snd p) evs) (alertEvents db) ?items"
  have first: "alertEvents (pollSolana up send1 d1 db) = ?first"
    by (rule pollSolana_events)
  have "alertEvents (pollSolana up send2 d2
      ((pollSolana up send1 d1 db)\<lparr>trackedAddresses := trackedAddresses db\<rparr>))
     = foldl (\<lambda>evs p. solAlert up send2 d2 (fst p) (snd p) evs) ?first ?items"
    by (simp add: pollSolana_events[of up send2 d2] first)
  also have "\<dots> = ?first" by (rule solAlerts_twice)
  finally show ?thesis by (simp only: first)
qed

lemma pollEvmChain_twice:
  assumes "pollEvmChain up send1 d1 ch db = Some db1"
  shows "\<exists>db2. pollEvmChain up send2 d2 ch (db1\<lparr>chainCursors := chainCursors db\<rparr>) = Some db2
           \<and> alertEvents db2 = alertEvents db1"
proof (cases "chainCursors db ch")
  case None
  then obtain l where l: "eth_blockNumber up ch = RpcResult l"
    and db1: "db1 = db\<lparr>chainCursors := (chainCursors db)(ch \<mapsto> l)\<rparr>"
    using assms by (auto simp add: pollEvmChain_def split: rpc.splits)
  show ?thesis
    using None l by (simp add: pollEvmChain_def db1)
next
  case (Some c)
  let ?tracked = "filter (\<lambda>t. chain t = ch \<and> isActive t) (trackedAddresses db)"
  show ?thesis
  proof (cases "?tracked = []")
    case True
    then have "db1 = db" using assms Some by (simp add: pollEvmChain_def)
    then show ?thesis using True Some by (simp add: pollEvmChain_def)
  next
    case False
    let ?r = "scanNewBlocks up ch c (map address ?tracked)"
    have ev1: "alertEvents db1 = evmAlerts send1 d1 ch ?tracked (transactions ?r) (alertEvents db)"
      and tr1: "trackedAddresses db1 = trackedAddresses db"
      using assms Some False by (auto simp add: pollEvmChain_def Let_def split: if_splits)
    have "\<exists>db2. pollEvmChain up send2 d2 ch (db1\<lparr>chainCursors := chainCursors db\<rparr>) = Some db2
           \<and> alertEvents db2 = evmAlerts send2 d2 ch ?tracked (transactions ?r) (alertEvents db1)"
      using Some False tr1 by (simp add: pollEvmChain_def Let_def)
    then show ?thesis
      unfolding ev1 evmAlerts_twice .
  qed
qed

subsection \<open>The scenario of the specification, evaluated\<close>

lemma weiToEth_tx_out: "weiToEth (tx_value tx_out) = 1 / 20"
proof -
  have "\<lfloor>(of_nat 50000000000000000 :: rat) / 10 ^ 18 * 10 ^ 8 + 1 / 2\<rfloor> = 5000000"
    by (rule floor_unique) simp_all
  then show ?thesis
    unfolding weiToEth_def math_round_def Let_def tx_out_def by simp
qed

lemma normalize_A1: "normalizeAddress ''0x00000000000000000000000000000000000000A1'' = addr1"
  by (simp add: normalizeAddress_def toLowerCase_def lower_char_def addr1_def)

lemma normalize_addr1: "normalizeAddress addr1 = addr1"
  by (simp add: normalizeAddress_def toLowerCase_def lower_char_def addr1_def)

lemma tx_out_from: "normalizeOrEmpty (tx_from tx_out) = normalizeAddress addr1"
  by (simp add: normalizeOrEmpty_def tx_out_def normalize_A1 normalize_addr1)

lemma tx_out_matches: "matchesAny [addr1] tx_out"
  by (simp add: matchesAny_def tx_out_from normalize_addr1 Let_def)

lemma up_transfer_head: "eth_blockNumber up_transfer ''eth'' = RpcResult 105"
  by (simp add: up_transfer_def)

lemma scan_other: "n \<noteq> 103 \<Longrightarrow> scanBlock up_transfer ''eth'' m n = []"
  by (simp add: scanBlock_def up_transfer_def empty_block_def)

lemma scan_103:
  "scanBlock up_transfer ''eth'' (matchesAny [addr1]) 103
     = [tx_out\<lparr>tx_timestamp := Some 1700000036\<rparr>]"
  by (simp add: scanBlock_def up_transfer_def block_103_def stampMatching_def tx_out_matches)

lemma window_101_105: "[101..105::int] = [101, 102, 103, 104, 105]"
  by (simp add: upto_rec1)

lemma scenario_scan:
  "scanNewBlocks up_transfer ''eth'' 100 [addr1]
     = \<lparr>transactions = [tx_out\<lparr>tx_timestamp := Some 1700000036\<rparr>], newCursor = 105\<rparr>"
proof -
  have lt: "(100::int) < 105" by simp
  show ?thesis
    using scanNewBlocks_ahead[OF up_transfer_head lt, of "[addr1]"]
    by (simp add: window_101_105 normalize_addr1 scan_other scan_103)
qed

lemma evmQualifies_eq:
  "evmQualifies (tx_out\<lparr>tx_timestamp := ts\<rparr>) (tracked1\<lparr>minAmount := m\<rparr>) \<longleftrightarrow> \<not> (1 / 20 < m)"
  by (simp add: evmQualifies_def tracked1_def tx_out_from weiToEth_tx_out)

lemma evmEvent_out:
  "evmEvent d ''eth'' (tx_out\<lparr>tx_timestamp := Some 1700000036\<rparr>) (tracked1\<lparr>minAmount := m\<rparr>)
     = event_out\<lparr>sentToTelegram := False\<rparr>"
  by (simp add: evmEvent_def event_out_def tracked1_def getNativeAsset_def tx_out_from
        weiToEth_tx_out) (simp add: tx_out_def)

lemma scenario_alert:
  "evmAlert always_sent d ''eth'' (tx_out\<lparr>tx_timestamp := Some 1700000036\<rparr>) tracked_low [] = [event_out]"
  unfolding evmAlert_eq tracked_low_def evmQualifies_eq evmEvent_out
  by (simp add: recordAndSend_def findUnique_def markSent_def always_sent_def event_out_def Let_def)

lemma scenario_poll: "pollEvmChain up_transfer always_sent 0 ''eth'' db_low = Some db_alerted"
proof -
  have t: "filter (\<lambda>t. chain t = ''eth'' \<and> isActive t) (trackedAddresses db_low) = [tracked_low]"
    by (simp add: db_low_def tracked_low_def tracked1_def)
  have a: "address tracked_low = addr1"
    by (simp add: tracked_low_def tracked1_def)
  have c: "chainCursors db_low ''eth'' = Some 100"
    by (simp add: db_low_def db_at_100_def)
  have e: "alertEvents db_low = []"
    by (simp add: db_low_def db_at_100_def)
  show ?thesis
    unfolding pollEvmChain_def Let_def
    by (simp add: c t a e scenario_scan evmAlerts_def scenario_alert
          db_alerted_def) (simp add: db_low_def db_at_100_def)
qed

lemma target_index: "findTargetIndex (accountKeys tx_plus) sol_target 0 = Some 1"
  by (simp add: tx_plus_def sol_target_def sol_payer_def)

lemma lamports_half: "lamportsToSol 500000000 = 1 / 2"
proof -
  have "\<lfloor>(500000000::rat) / 10 ^ 9 * 10 ^ 8 + 1 / 2\<rfloor> = 50000000"
    by (rule floor_unique) simp_all
  then show ?thesis
    unfolding lamportsToSol_def math_round_def Let_def by simp
qed

lemma balances_plus:
  "balanceAt (postBalances tx_plus) 1 - balanceAt (preBalances tx_plus) 1 = 500000000"
  by (simp add: balanceAt_def tx_plus_def)

lemma delta_plus: "balanceDelta sol_target tx_plus = Some (1 / 2, In)"
  unfolding balanceDelta_def Let_def target_index option.case balances_plus lamports_half
  by simp

lemma sol_amount: "parseTransactionAmount up_transfer sol_target (signature sig1) = Some (1 / 2, In)"
  by (simp add: parseTransactionAmount_def getTransaction_def up_transfer_def delta_plus)

subsection \<open>Threshold and idempotence\<close>

lemma parsed_nonneg:
  assumes "parseTransactionAmount up a s = Some (amt, dir)"
  shows "0 \<le> amt"
  using assms
  by (auto simp add: parseTransactionAmount_def balanceDelta_def Let_def split: option.splits)

lemma fresh_key: "findUnique events ch tx tid = None \<Longrightarrow> (ch, tx, tid) \<notin> ledgerKeys events"
  by (simp add: findUnique_None_iff)

lemma evm_threshold:
  assumes touches: "normalizeOrEmpty (tx_from tx) = normalizeAddress (address tracked)
      \<or> normalizeOrEmpty (tx_to tx) = normalizeAddress (address tracked)"
    and fresh: "findUnique events ch (tx_hash tx) (ta_id tracked) = None"
  shows "(weiToEth (tx_value tx) < minAmount tracked
            \<longrightarrow> evmAlert send d ch tx tracked events = events) \<and>
         (\<not> weiToEth (tx_value tx) < minAmount tracked
            \<longrightarrow> length (evmAlert send d ch tx tracked events) = Suc (length events))"
proof -
  have q: "evmQualifies tx tracked \<longleftrightarrow> \<not> weiToEth (tx_value tx) < minAmount tracked"
    using touches by (simp add: evmQualifies_def)
  have k: "alertKey (evmEvent d ch tx tracked) \<notin> ledgerKeys events"
    using fresh_key[OF fresh] by (simp add: alertKey_evmEvent)
  show ?thesis
    unfolding evmAlert_eq q using recordAndSend_new_length[OF k] by simp
qed

lemma sol_threshold:
  assumes ok: "\<not> err sig"
    and parsed: "parseTransactionAmount up (address strk) (signature sig) = Some (amt, dir)"
    and fresh: "findUnique sevents ''sol'' (signature sig) (ta_id strk) = None"
  shows "(amt < minAmount strk \<longrightarrow> solAlert up send d strk sig sevents = sevents) \<and>
         (\<not> amt < minAmount strk
            \<longrightarrow> length (solAlert up send d strk sig sevents) = Suc (length sevents))"
proof -
  have q: "solQualifies up strk sig \<longleftrightarrow> \<not> amt < minAmount strk"
    using ok parsed by (simp add: solQualifies_def)
  have k: "alertKey (solEvent up d strk sig) \<notin> ledgerKeys sevents"
    using fresh_key[OF fresh] by (simp add: alertKey_solEvent)
  show ?thesis
    unfolding solAlert_eq q using recordAndSend_new_length[OF k] by simp
qed

text \<open>
  C6. For a transaction that touches a tracked address (on Solana: a successful signature
  whose balance delta for the tracked address was parsed) and that has no alert event yet,
  the record is dropped, leaving the table as it was, exactly when its amount is strictly
  below the configured minimum, and exactly otherwise one alert event is created. A record
  whose amount equals the minimum is alerted, and with a minimum of 0 every record is,
  zero-value transfers included.
\<close>

theorem threshold_filter:
  assumes touches: "normalizeOrEmpty (tx_from tx) = normalizeAddress (address tracked)
      \<or> normalizeOrEmpty (tx_to tx) = normalizeAddress (address tracked)"
    and fresh: "findUnique events ch (tx_hash tx) (ta_id tracked) = None"
    and ok: "\<not> err sig"
    and parsed: "parseTransactionAmount up (address strk) (signature sig) = Some (amt, dir)"
    and sfresh: "findUnique sevents ''sol'' (signature sig) (ta_id strk) = None"
  shows
    "(evmAlert send d ch tx tracked events = events
        \<longleftrightarrow> weiToEth (tx_value tx) < minAmount tracked) \<and>
     (length (evmAlert send d ch tx tracked events) = Suc (length events)
        \<longleftrightarrow> \<not> weiToEth (tx_value tx) < minAmount tracked) \<and>
     (weiToEth (tx_value tx) = minAmount tracked
        \<longrightarrow> length (evmAlert send d ch tx tracked events) = Suc (length events)) \<and>
     (minAmount tracked = 0
        \<longrightarrow> length (evmAlert send d ch tx tracked events) = Suc (length events)) \<and>
     (solAlert up send d strk sig sevents = sevents \<longleftrightarrow> amt < minAmount strk) \<and>
     (length (solAlert up send d strk sig sevents) = Suc (length sevents)
        \<longleftrightarrow> \<not> amt < minAmount strk) \<and>
     (amt = minAmount strk
        \<longrightarrow> length (solAlert up send d strk sig sevents) = Suc (length sevents)) \<and>
     (minAmount strk = 0
        \<longrightarrow> length (solAlert up send d strk sig sevents) = Suc (length sevents))"
proof -
  note e = evm_threshold[OF touches fresh, of send d]
  note s = sol_threshold[OF ok parsed sfresh, of send d]
  have ae: "0 \<le> weiToEth (tx_value tx)" by (rule weiToEth_nonneg)
  have as: "0 \<le> amt" using parsed by (rule parsed_nonneg)
  have e1: "evmAlert send d ch tx tracked events = events
        \<longleftrightarrow> weiToEth (tx_value tx) < minAmount tracked"
    using e by (cases "weiToEth (tx_value tx) < minAmount tracked") auto
  have e2: "length (evmAlert send d ch tx tracked events) = Suc (length events)
        \<longleftrightarrow> \<not> weiToEth (tx_value tx) < minAmount tracked"
    using e by (cases "weiToEth (tx_value tx) < minAmount tracked") auto
  have s1: "solAlert up send d strk sig sevents = sevents \<longleftrightarrow> amt < minAmount strk"
    using s by (cases "amt < minAmount strk") auto
  have s2: "length (solAlert up send d strk sig sevents) = Suc (length sevents)
        \<longleftrightarrow> \<not> amt < minAmount strk"
    using s by (cases "amt < minAmount strk") auto
  show ?thesis
    unfolding e1 e2 s1 s2 using ae as by auto
qed

text \<open>
  C5. Recording an alert a second time under the same (chain, transaction, tracked address)
  key, whatever the details and the delivery outcome of the second attempt, leaves the
  table exactly as the first attempt left it. Re-running an EVM poll with the chain cursor
  put back, or a Solana poll with the address cursors put back, against the same node
  creates no further alert event and changes no stored one.
\<close>

theorem alert_dedup_idempotent:
  "(alertKey ev' = alertKey ev
      \<longrightarrow> recordAndSend send2 ev' (recordAndSend send1 ev events) = recordAndSend send1 ev events) \<and>
   (pollEvmChain up send1 d1 ch db = Some db1
      \<longrightarrow> (\<exists>db2. pollEvmChain up send2 d2 ch (db1\<lparr>chainCursors := chainCursors db\<rparr>) = Some db2
                 \<and> alertEvents db2 = alertEvents db1)) \<and>
   alertEvents (pollSolana up send2 d2
      ((pollSolana up send1 d1 db)\<lparr>trackedAddresses := trackedAddresses db\<rparr>))
     = alertEvents (pollSolana up send1 d1 db)"
proof (intro conjI impI)
  assume "alertKey ev' = alertKey ev"
  then have "alertKey ev' \<in> ledgerKeys (recordAndSend send1 ev events)"
    by (simp add: recordAndSend_keys)
  then show "recordAndSend send2 ev' (recordAndSend send1 ev events) = recordAndSend send1 ev events"
    by (rule recordAndSend_known)
next
  assume "pollEvmChain up send1 d1 ch db = Some db1"
  then show "\<exists>db2. pollEvmChain up send2 d2 ch (db1\<lparr>chainCursors := chainCursors db\<rparr>) = Some db2
                 \<and> alertEvents db2 = alertEvents db1"
    by (rule pollEvmChain_twice)
next
  show "alertEvents (pollSolana up send2 d2
      ((pollSolana up send1 d1 db)\<lparr>trackedAddresses := trackedAddresses db\<rparr>))
     = alertEvents (pollSolana up send1 d1 db)"
    by (rule pollSolana_twice)
qed

theorem alert_dedup_idempotent_witness:
  "alertKey (event_out\<lparr>ev_amount := 9\<rparr>) = alertKey (event_out\<lparr>sentToTelegram := False\<rparr>) \<and>
   recordAndSend never_sent (event_out\<lparr>ev_amount := 9\<rparr>)
       (recordAndSend always_sent (event_out\<lparr>sentToTelegram := False\<rparr>) [])
     = [event_out] \<and>
   pollEvmChain up_transfer always_sent 0 ''eth'' db_low = Some db_alerted \<and>
   alertEvents db_alerted = [event_out] \<and>
   (\<exists>db2. pollEvmChain up_transfer never_sent 99 ''eth''
             (db_alerted\<lparr>chainCursors := chainCursors db_low\<rparr>) = Some db2
          \<and> alertEvents db2 = [event_out])"
proof -
  have k: "alertKey (event_out\<lparr>ev_amount := 9\<rparr>) = alertKey (event_out\<lparr>sentToTelegram := False\<rparr>)"
    by (simp add: alertKey_def)
  have first: "recordAndSend always_sent (event_out\<lparr>sentToTelegram := False\<rparr>) [] = [event_out]"
    by (simp add: recordAndSend_def findUnique_def markSent_def always_sent_def event_out_def Let_def)
  have a: "alertEvents db_alerted = [event_out]"
    by (simp add: db_alerted_def)
  note t = alert_dedup_idempotent[of "event_out\<lparr>ev_amount := 9\<rparr>"
      "event_out\<lparr>sentToTelegram := False\<rparr>" never_sent always_sent "[]"
      up_transfer 0 "''eth''" db_low db_alerted 99]
  show ?thesis
    using t k scenario_poll a by (simp add: first)
qed

lemma tx_out_touches:
  "address t = addr1 \<Longrightarrow>
   normalizeOrEmpty (tx_from tx_out) = normalizeAddress (address t)
   \<or> normalizeOrEmpty (tx_to tx_out) = normalizeAddress (address t)"
  by (simp add: tx_out_from)

lemma fresh_empty: "findUnique [] ch tx tid = None"
  by (simp add: findUnique_def)

lemma sig1_ok: "\<not> err sig1"
  by (simp add: sig1_def)

lemma sol_parsed:
  "address t = sol_target \<Longrightarrow>
   parseTransactionAmount up_transfer (address t) (signature sig1) = Some (1 / 2, In)"
  using sol_amount by simp

theorem threshold_filter_witness:
  "weiToEth (tx_value tx_out) = minAmount tracked_eq \<and> 1 / 2 = minAmount tracked_sol \<and>
   length (evmAlert always_sent 0 ''eth'' tx_out tracked_eq []) = 1 \<and>
   length (solAlert up_transfer always_sent 0 tracked_sol sig1 []) = 1 \<and>
   minAmount tracked_zero = 0 \<and> minAmount tracked_sol_zero = 0 \<and>
   length (evmAlert always_sent 0 ''eth'' tx_out tracked_zero []) = 1 \<and>
   length (solAlert up_transfer always_sent 0 tracked_sol_zero sig1 []) = 1 \<and>
   weiToEth (tx_value tx_out) < minAmount tracked1 \<and> 1 / 2 < minAmount tracked_sol_high \<and>
   evmAlert always_sent 0 ''eth'' tx_out tracked1 [] = [] \<and>
   solAlert up_transfer always_sent 0 tracked_sol_high sig1 [] = []"
proof -
  have m: "minAmount tracked_eq = 1 / 20" "minAmount tracked_sol = 1 / 2"
    "minAmount tracked_zero = 0" "minAmount tracked_sol_zero = 0"
    "minAmount tracked1 = 1 / 10" "minAmount tracked_sol_high = 1"
    by (simp_all add: tracked_eq_def tracked_sol_def tracked_zero_def tracked_sol_zero_def
          tracked1_def tracked_sol_high_def)
  have a: "address tracked_eq = addr1" "address tracked_zero = addr1" "address tracked1 = addr1"
    by (simp_all add: tracked_eq_def tracked_zero_def tracked1_def)
  have sa: "address tracked_sol = sol_target" "address tracked_sol_zero = sol_target"
    "address tracked_sol_high = sol_target"
    by (simp_all add: tracked_sol_def tracked_sol_zero_def tracked_sol_high_def)
  have equal: "length (evmAlert always_sent 0 ''eth'' tx_out tracked_eq []) = 1 \<and>
      length (solAlert up_transfer always_sent 0 tracked_sol sig1 []) = 1"
    using threshold_filter[where send = always_sent and d = 0,
        OF tx_out_touches[OF a(1)] fresh_empty sig1_ok sol_parsed[OF sa(1)] fresh_empty]
    by (simp add: m weiToEth_tx_out)
  have zero: "length (evmAlert always_sent 0 ''eth'' tx_out tracked_zero []) = 1 \<and>
      length (solAlert up_transfer always_sent 0 tracked_sol_zero sig1 []) = 1"
    using threshold_filter[where send = always_sent and d = 0,
        OF tx_out_touches[OF a(2)] fresh_empty sig1_ok sol_parsed[OF sa(2)] fresh_empty]
    by (simp add: m weiToEth_tx_out)
  have below: "evmAlert always_sent 0 ''eth'' tx_out tracked1 [] = [] \<and>
      solAlert up_transfer always_sent 0 tracked_sol_high sig1 [] = []"
    using threshold_filter[where send = always_sent and d = 0,
        OF tx_out_touches[OF a(3)] fresh_empty sig1_ok sol_parsed[OF sa(3)] fresh_empty]
    by (simp add: m weiToEth_tx_out)
  show ?thesis
    using equal zero below by (simp add: m weiToEth_tx_out)
qed

section \<open>Registration and the configured limits\<close>

lemma toString_777: "toString 777 = ''777''"
  by (simp add: toString.simps digit_char_def)

lemma toString_105: "toString 105 = ''105''"
  by (simp add: toString.simps digit_char_def)

lemma valid_new: "isValidFor ''eth'' addr_new"
  by (simp add: isValidFor_def evm_isValidAddress_def addr_new_def isHexChar_def)

lemma stored_new: "storedAddress ''eth'' addr_new = ''0x00000000000000000000000000000000000000c3''"
  by (simp add: storedAddress_def normalizeAddress_def toLowerCase_def lower_char_def addr_new_def)

lemma total_full: "totalTracked db_full = 2"
  by (simp add: totalTracked_def db_full_def tracked1_def tracked2_def)

lemma findOrCreateUser_tracked:
  "trackedAddresses (snd (findOrCreateUser db tg)) = trackedAddresses db"
  by (simp add: findOrCreateUser_def Let_def split: option.splits)

lemma findOrCreateUser_total: "totalTracked (snd (findOrCreateUser db tg)) = totalTracked db"
  by (simp add: totalTracked_def findOrCreateUser_tracked)

lemma createTracked_total:
  "totalTracked (snd (createTracked db uid ch a l m c)) = Suc (totalTracked db)"
  by (simp add: createTracked_def totalTracked_def default_isActive_def Let_def)

lemma createTracked_user:
  "length (activeOfUser (snd (createTracked db uid ch a l m c)) uid)
     = Suc (length (activeOfUser db uid))"
  by (simp add: createTracked_def activeOfUser_def default_isActive_def Let_def)

lemma createTracked_userId: "userId (fst (createTracked db uid ch a l m c)) = uid"
  by (simp add: createTracked_def Let_def)

text \<open>The HTTP route creates an entity only below both limits.\<close>

lemma addNew_created:
  assumes "addNew limits up db req = (NowTracking t, db')"
  shows "totalTracked db < maxTrackedTotal limits \<and> totalTracked db' = Suc (totalTracked db) \<and>
         length (activeOfUser db' (userId t)) \<le> maxTrackedPerUser limits"
proof -
  obtain user db1 where f: "findOrCreateUser db (req_telegramUserId req) = (user, db1)"
    by (cases "findOrCreateUser db (req_telegramUserId req)")
  have t1: "totalTracked db1 = totalTracked db"
    using findOrCreateUser_total[of db "req_telegramUserId req"] f by simp
  obtain cursor where made: "createTracked db1 (u_id user) (req_chain req)
        (storedAddress (req_chain req) (req_address req)) (req_label req)
        (case req_minAmount req of None \<Rightarrow> 0 | Some m \<Rightarrow> m) cursor = (t, db')"
    and user_ok: "length (activeOfUser db1 (u_id user)) < maxTrackedPerUser limits"
    and total_ok: "totalTracked db1 < maxTrackedTotal limits"
    using assms
    by (auto simp add: addNew_def Let_def f split: if_splits rpc.splits prod.splits)
  have "totalTracked db' = Suc (totalTracked db1)"
    using createTracked_total[of db1] made by (metis snd_conv)
  moreover have "userId t = u_id user"
    using createTracked_userId[of db1] made by (metis fst_conv)
  moreover have "length (activeOfUser db' (u_id user)) = Suc (length (activeOfUser db1 (u_id user)))"
    using createTracked_user[of db1 "u_id user"] made by (metis snd_conv)
  ultimately show ?thesis
    using t1 user_ok total_ok by simp
qed

lemma addNew_rejected:
  assumes "\<forall>t. fst (addNew limits up db req) \<noteq> NowTracking t"
  shows "trackedAddresses (snd (addNew limits up db req)) = trackedAddresses db"
proof -
  obtain user db1 where f: "findOrCreateUser db (req_telegramUserId req) = (user, db1)"
    by (cases "findOrCreateUser db (req_telegramUserId req)")
  have t1: "trackedAddresses db1 = trackedAddresses db"
    using findOrCreateUser_tracked[of db "req_telegramUserId req"] f by simp
  show ?thesis
    using assms t1
    by (auto simp add: addNew_def Let_def f split: if_splits rpc.splits prod.splits)
qed

lemma addNew_at_total_limit:
  assumes "totalTracked db \<ge> maxTrackedTotal limits"
  shows "(\<forall>t. fst (addNew limits up db req) \<noteq> NowTracking t) \<and>
         trackedAddresses (snd (addNew limits up db req)) = trackedAddresses db"
proof -
  have n: "\<forall>t. fst (addNew limits up db req) \<noteq> NowTracking t"
  proof (intro allI notI)
    fix t assume "fst (addNew limits up db req) = NowTracking t"
    then obtain db' where "addNew limits up db req = (NowTracking t, db')"
      by (cases "addNew limits up db req") simp
    then have "totalTracked db < maxTrackedTotal limits" using addNew_created by blast
    then show False using assms by simp
  qed
  then show ?thesis using addNew_rejected by blast
qed

lemma user_777: "findOrCreateUser db_full ''777'' = (user3, db_full\<lparr>users := [user1, user2, user3]\<rparr>)"
  by (simp add: findOrCreateUser_def findUser_def db_full_def user1_def user2_def user3_def
        nextId_def Let_def)

lemma none_of_3: "activeOfUser (db_full\<lparr>users := us\<rparr>) 3 = []"
  by (simp add: activeOfUser_def db_full_def tracked1_def tracked2_def)

lemma cursor_new: "initialCursor up_transfer ''eth'' a = RpcResult ''105''"
  by (simp add: initialCursor_def up_transfer_def toString_105)

lemma create_3:
  "createTracked (db_full\<lparr>users := us\<rparr>) 3 ''eth'' ''0x00000000000000000000000000000000000000c3''
      ''third'' 0 ''105''
     = (tracked3, db_full\<lparr>users := us, trackedAddresses := [tracked1, tracked2, tracked3]\<rparr>)"
  by (simp add: createTracked_def db_full_def tracked1_def tracked2_def tracked3_def nextId_def
        default_isActive_def Let_def)

lemma flow_eval:
  "handleMinAmountStep limits_small up_transfer db_full 777 st_new (Some 0)
     = (Success, db_full\<lparr>users := [user1, user2, user3],
                          trackedAddresses := [tracked1, tracked2, tracked3]\<rparr>)"
  by (simp add: handleMinAmountStep_def toString_777 user_777 none_of_3 limits_small_def
        st_new_def cursor_new stored_new create_3 user3_def Let_def)

lemma route_eval: "addNew limits_small up_transfer db_full req_new
     = (TotalLimitReached, db_full\<lparr>users := [user1, user2, user3]\<rparr>)"
proof -
  have t: "totalTracked (db_full\<lparr>users := [user1, user2, user3]\<rparr>) = 2"
    by (simp add: totalTracked_def db_full_def tracked1_def tracked2_def)
  have u: "u_id user3 = 3" by (simp add: user3_def)
  have ne: "addr_new \<noteq> []" by (simp add: addr_new_def)
  show ?thesis
    by (simp add: addNew_def req_new_def validChains_def valid_new user_777 none_of_3 t u ne
          limits_small_def Let_def)
qed

lemma total_after_flow:
  "totalTracked (db_full\<lparr>users := [user1, user2, user3],
                         trackedAddresses := [tracked1, tracked2, tracked3]\<rparr>) = 3"
  by (simp add: totalTracked_def tracked1_def tracked2_def tracked3_def)

text \<open>
  C3 holds for the HTTP route (\<open>addNew_at_total_limit\<close>, \<open>addNew_created\<close>) and fails for
  the chat flow, which checks the per-user limit only: with the system at its total limit
  of 2 active entities, the same registration that the route rejects is saved by the
  chat flow, leaving 3 active entities.
\<close>

theorem chat_flow_exceeds_total_limit:
  "maxTrackedTotal limits_small \<le> totalTracked db_full \<and>
   fst (addNew limits_small up_transfer db_full req_new) = TotalLimitReached \<and>
   trackedAddresses (snd (addNew limits_small up_transfer db_full req_new))
     = trackedAddresses db_full \<and>
   fst (handleMinAmountStep limits_small up_transfer db_full 777 st_new (Some 0)) = Success \<and>
   totalTracked (snd (handleMinAmountStep limits_small up_transfer db_full 777 st_new (Some 0))) = 3"
proof -
  have "maxTrackedTotal limits_small = 2" by (simp add: limits_small_def)
  then show ?thesis
    by (simp add: route_eval flow_eval total_after_flow total_full)
qed

section \<open>The on-demand check: at most 20 records, most recent first\<close>




























end
